theory Spec2Isabelle
  imports Main "HOL-Library.AList" "HOL-Library.Char_ord" "HOL-Library.List_Lexorder"
begin

section \<open>Python values\<close>

text \<open>
  The values the mapping layer moves between instances and the document store: Python's
  \<open>None\<close>, booleans, unbounded integers, text, UTC timestamps (as a number of
  milliseconds), object ids (opaque tokens), lists and dictionaries. A dictionary is an
  association list in insertion order, as a Python \<open>dict\<close> is.
\<close>

datatype pyval =
    PyNone
  | PyBool bool
  | PyInt int
  | PyStr string
  | PyDateTime int
  | PyObjectId string
  | PyList "pyval list"
  | PyDict "(string \<times> pyval) list"

type_synonym document = "(string \<times> pyval) list"

text \<open>Python's truth value of an object (\<open>bool(x)\<close>, \<open>if x:\<close>).\<close>

fun truthy :: "pyval \<Rightarrow> bool" where
  "truthy PyNone = False"
| "truthy (PyBool b) = b"
| "truthy (PyInt n) = (n \<noteq> 0)"
| "truthy (PyStr s) = (s \<noteq> [])"
| "truthy (PyDateTime t) = True"
| "truthy (PyObjectId i) = True"
| "truthy (PyList xs) = (xs \<noteq> [])"
| "truthy (PyDict d) = (d \<noteq> [])"

text \<open>\<open>len(x)\<close>: defined on text, lists and dictionaries, a \<open>TypeError\<close> elsewhere.\<close>

fun py_len :: "pyval \<Rightarrow> nat option" where
  "py_len (PyStr s) = Some (length s)"
| "py_len (PyList xs) = Some (length xs)"
| "py_len (PyDict d) = Some (length d)"
| "py_len _ = None"

text \<open>\<open>d.get(k, None)\<close> on a dictionary.\<close>

definition dict_get :: "document \<Rightarrow> string \<Rightarrow> pyval" where
  "dict_get d k = (case map_of d k of None \<Rightarrow> PyNone | Some v \<Rightarrow> v)"

section \<open>Exceptions\<close>

text \<open>
  The exception classes of \<open>exceptions.py\<close>. A model class owns a \<open>DoesNotExist\<close>
  class of its own, created by the metaclass: \<open>ModelDoesNotExist c\<close> is the class created
  for the model class with identity \<open>c\<close>, a direct subclass of the package-wide
  \<open>DoesNotExist\<close>.
\<close>

type_synonym class_id = nat

datatype exc_class =
    ExceptionC
  | MongoDBExceptionC
  | DoesNotExistC
  | ModelDoesNotExist class_id
  | BulkWriteExceptionC
  | AttributesEmptyExceptionC

text \<open>Errors of the driver, raised by a call to the store.\<close>

datatype driver_error =
    BulkWriteError pyval
  | DuplicateKeyError
  | OtherDriverError string

datatype exn =
    Raise_DoesNotExist exc_class
  | Raise_AttrsEmpty string
  | Raise_BulkWrite pyval
  | Raise_ValueError string
  | Raise_TypeError
  | Raise_Driver driver_error

section \<open>Attribute descriptors (attributes.py)\<close>

datatype attr_kind =
    NumberAttribute
  | BooleanAttribute
  | UnicodeAttribute
  | UTCDateTimeAttribute
  | JSONAttribute
  | ObjectIdAttribute
  | ListAttribute

text \<open>
  \<open>serialize\<close>: the base class returns the value; \<open>BooleanAttribute\<close> keeps
  \<open>None\<close> and maps any other value to its truth value; \<open>UnicodeAttribute\<close>
  returns \<open>None\<close> for \<open>None\<close> and for a value of length 0, the value itself for text
  (and \<open>six.u(value)\<close>, the value again on Python 3, for anything else that has a
  length); \<open>len\<close> of a value without a length raises \<open>TypeError\<close>.
\<close>

fun serialize :: "attr_kind \<Rightarrow> pyval \<Rightarrow> exn + pyval" where
  "serialize BooleanAttribute v =
     (if v = PyNone then Inr PyNone
      else if truthy v then Inr (PyBool True)
      else Inr (PyBool False))"
| "serialize UnicodeAttribute v =
     (if v = PyNone then Inr PyNone
      else (case py_len v of
              None \<Rightarrow> Inl Raise_TypeError
            | Some n \<Rightarrow> if n = 0 then Inr PyNone else Inr v))"
| "serialize _ v = Inr v"

text \<open>
  \<open>deserialize\<close>: the base class returns the value; only \<open>BooleanAttribute\<close> overrides
  it, with \<open>bool(value)\<close>.
\<close>

fun deserialize :: "attr_kind \<Rightarrow> pyval \<Rightarrow> pyval" where
  "deserialize BooleanAttribute v = PyBool (truthy v)"
| "deserialize _ v = v"

text \<open>\<open>deserialize(serialize(v))\<close>, an error of \<open>serialize\<close> propagating.\<close>

definition round_trip :: "attr_kind \<Rightarrow> pyval \<Rightarrow> exn + pyval" where
  "round_trip k v = (case serialize k v of Inl e \<Rightarrow> Inl e | Inr s \<Rightarrow> Inr (deserialize k s))"

text \<open>The kinds that inherit both \<open>serialize\<close> and \<open>deserialize\<close> from the base class.\<close>

definition inherits_identity :: "attr_kind \<Rightarrow> bool" where
  "inherits_identity k = (k \<noteq> BooleanAttribute \<and> k \<noteq> UnicodeAttribute)"

subsection \<open>Descriptor metadata\<close>

text \<open>
  A default is either a plain value or a callable producing one (\<open>lambda: {}\<close>,
  \<open>lambda: []\<close>); the callable is represented by the value it returns at each call.
\<close>

datatype default_spec = DefaultValue pyval | DefaultCallable pyval

record attribute =
  kind :: attr_kind
  attr_default :: default_spec
  is_hash_key :: bool
  null :: bool
  attr_name :: "string option"

text \<open>
  \<open>Attribute.__init__(hash_key=False, null=None, default=None, attr_name=None)\<close>, with
  the \<open>kwargs.setdefault("default", ...)\<close> of \<open>JSONAttribute\<close> and
  \<open>ListAttribute\<close>: an argument that is not passed is \<open>None\<close> here.
\<close>

definition Attribute_init ::
  "attr_kind \<Rightarrow> bool \<Rightarrow> bool option \<Rightarrow> default_spec option \<Rightarrow> string option \<Rightarrow> attribute" where
  "Attribute_init k hash_key null_arg default_arg name =
     \<lparr> kind = k,
       attr_default =
         (case default_arg of
            Some d \<Rightarrow> d
          | None \<Rightarrow>
              if k = JSONAttribute then DefaultCallable (PyDict [])
              else if k = ListAttribute then DefaultCallable (PyList [])
              else DefaultValue PyNone),
       is_hash_key = hash_key,
       null = (if hash_key then False else (case null_arg of None \<Rightarrow> False | Some n \<Rightarrow> n)),
       attr_name = name \<rparr>"

subsection \<open>Registration (AttributeContainerMeta, MetaModel)\<close>

type_synonym registry = "(string \<times> attribute) list"

text \<open>
  \<open>_initialize_attributes\<close>: starting from an empty dictionary, every member that
  \<open>getmembers\<close> enumerates is stored under its name and is given that name. The
  argument is the enumeration of \<open>getmembers(cls, ...)\<close>, in its order. Every entry
  is a descriptor of its own: a class that binds one descriptor object to two names, which
  then share the name enumerated last, is not represented.
\<close>

definition initialize_attributes :: "(string \<times> attribute) list \<Rightarrow> registry" where
  "initialize_attributes members =
     fold (\<lambda>(name, a) reg. AList.update name (a\<lparr>attr_name := Some name\<rparr>) reg) members []"

text \<open>
  \<open>inspect.getmembers\<close> of the standard library returns the members sorted by name;
  \<open>namespace\<close> holds the descriptors a class and its ancestors declare, each name once.
\<close>

definition getmembers :: "(string \<times> attribute) list \<Rightarrow> (string \<times> attribute) list" where
  "getmembers namespace = sort_key fst namespace"

record model_class =
  cls_id :: class_id
  get_attributes :: registry
  hash_key_field :: "string option"
  DoesNotExist :: exc_class

text \<open>
  \<open>MetaModel.__init__\<close>: the registry is built, then every registered attribute whose
  \<open>is_hash_key\<close> is set overwrites \<open>_hash_key\<close> in the registry's order
  (\<open>inherited\<close> is the \<open>_hash_key\<close> the class inherits, \<open>None\<close> from
  \<open>MongoDBModel\<close>); unless the class body declares \<open>DoesNotExist\<close>
  (\<open>declared\<close>), a new exception class derived from the package-wide
  \<open>DoesNotExist\<close> is created for this class. The loop that names attributes whose
  \<open>attr_name\<close> is still \<open>None\<close> finds none after registration.
\<close>

definition MetaModel_init ::
  "class_id \<Rightarrow> string option \<Rightarrow> (string \<times> attribute) list \<Rightarrow> exc_class option \<Rightarrow> model_class" where
  "MetaModel_init cid inherited members declared =
     (let reg = initialize_attributes members in
      \<lparr> cls_id = cid,
        get_attributes = reg,
        hash_key_field =
          fold (\<lambda>(name, a) hk. if is_hash_key a then Some name else hk) reg inherited,
        DoesNotExist = (case declared of None \<Rightarrow> ModelDoesNotExist cid | Some e \<Rightarrow> e) \<rparr>)"

text \<open>
  The base class \<open>MongoDBModel\<close>: its body declares \<open>_id = ObjectIdAttribute()\<close>,
  \<open>_hash_key = None\<close> and \<open>DoesNotExist = DoesNotExist\<close>.
\<close>

definition MongoDBModel :: model_class where
  "MongoDBModel =
     MetaModel_init 0 None
       [(''_id'', Attribute_init ObjectIdAttribute False None None None)]
       (Some DoesNotExistC)"

text \<open>
  The classes an exception class derives from, itself first; \<open>except H\<close> catches an
  exception of class \<open>E\<close> when \<open>H\<close> is among the classes of \<open>E\<close>.
\<close>

fun exc_mro :: "exc_class \<Rightarrow> exc_class list" where
  "exc_mro ExceptionC = [ExceptionC]"
| "exc_mro MongoDBExceptionC = [MongoDBExceptionC, ExceptionC]"
| "exc_mro DoesNotExistC = [DoesNotExistC, MongoDBExceptionC, ExceptionC]"
| "exc_mro (ModelDoesNotExist c) =
     [ModelDoesNotExist c, DoesNotExistC, MongoDBExceptionC, ExceptionC]"
| "exc_mro BulkWriteExceptionC = [BulkWriteExceptionC, ExceptionC]"
| "exc_mro AttributesEmptyExceptionC = [AttributesEmptyExceptionC, ExceptionC]"

definition handler_catches :: "exc_class \<Rightarrow> exc_class \<Rightarrow> bool" where
  "handler_catches handler raised = (handler \<in> set (exc_mro raised))"

section \<open>Instances (AttributeContainer, MongoDBModel)\<close>

text \<open>
  An instance holds \<open>attributes\<close>, the keyword arguments of its constructor, and
  \<open>attribute_values\<close>, the current value of each field. Reading or writing a field goes
  through its descriptor, which reads or writes \<open>attribute_values\<close> under the
  descriptor's \<open>attr_name\<close>, the name it is registered under. Keyword arguments are
  passed as dictionaries; field names are taken to differ from the parameter names of the
  methods they are passed to.
\<close>

record model_instance =
  attributes :: document
  attribute_values :: document

definition setattr :: "model_instance \<Rightarrow> string \<Rightarrow> pyval \<Rightarrow> model_instance" where
  "setattr inst name v = inst\<lparr>attribute_values := AList.update name v (attribute_values inst)\<rparr>"

text \<open>\<open>self._id\<close>, also \<open>mongo_obj_id\<close>.\<close>

definition mongo_obj_id :: "model_instance \<Rightarrow> pyval" where
  "mongo_obj_id inst = dict_get (attribute_values inst) ''_id''"

definition default_value :: "attribute \<Rightarrow> pyval" where
  "default_value a = (case attr_default a of DefaultCallable v \<Rightarrow> v | DefaultValue v \<Rightarrow> v)"

definition set_defaults :: "model_class \<Rightarrow> model_instance \<Rightarrow> model_instance" where
  "set_defaults cls inst =
     fold (\<lambda>(name, a) i.
             if default_value a \<noteq> PyNone then setattr i name (default_value a) else i)
          (get_attributes cls) inst"

fun set_attributes :: "model_class \<Rightarrow> document \<Rightarrow> model_instance \<Rightarrow> exn + model_instance" where
  "set_attributes cls [] inst = Inr inst"
| "set_attributes cls ((name, v) # rest) inst =
     (if map_of (get_attributes cls) name = None
      then Inl (Raise_ValueError (''Attribute '' @ name @ '' specified does not exist''))
      else set_attributes cls rest (setattr inst name v))"

definition AttributeContainer_init :: "model_class \<Rightarrow> document \<Rightarrow> exn + model_instance" where
  "AttributeContainer_init cls attrs =
     set_attributes cls attrs
       (set_defaults cls \<lparr>attributes = attrs, attribute_values = []\<rparr>)"

text \<open>
  \<open>MongoDBModel.__init__(hash_key=None, **attributes)\<close>. A hash key given to a class
  without a hash-key field is stored under the key \<open>None\<close>, which the call
  \<open>super().__init__(**attributes)\<close> rejects with \<open>TypeError\<close>.
\<close>

definition MongoDBModel_init :: "model_class \<Rightarrow> pyval \<Rightarrow> document \<Rightarrow> exn + model_instance" where
  "MongoDBModel_init cls hash_key attrs =
     (if hash_key \<noteq> PyNone
      then (case hash_key_field cls of
              None \<Rightarrow> Inl Raise_TypeError
            | Some k \<Rightarrow> AttributeContainer_init cls (AList.update k hash_key attrs))
      else AttributeContainer_init cls attrs)"

definition deserialize_fields :: "model_class \<Rightarrow> model_instance \<Rightarrow> document \<Rightarrow> model_instance" where
  \<comment> \<open>\<open>MongoDBModel._deserialize\<close>\<close>
  "deserialize_fields cls inst attrs =
     fold (\<lambda>(name, a) i.
             let value = dict_get attrs name;
                 value = (if value \<noteq> PyNone then deserialize (kind a) value else value)
             in setattr i name value)
          (get_attributes cls) inst"

definition raw_attributes :: "model_class \<Rightarrow> document \<Rightarrow> document" where
  \<comment> \<open>the loop of \<open>from_raw_data\<close>\<close>
  "raw_attributes cls data =
     fold (\<lambda>(attr_name, value) attrs.
             case map_of (get_attributes cls) attr_name of
               None \<Rightarrow> attrs
             | Some a \<Rightarrow> AList.update attr_name (deserialize (kind a) value) attrs)
          data []"

definition from_raw_data :: "model_class \<Rightarrow> document option \<Rightarrow> exn + model_instance" where
  "from_raw_data cls data =
     (case data of
        None \<Rightarrow> Inl (Raise_ValueError ''Received no data to construct object'')
      | Some d \<Rightarrow> MongoDBModel_init cls PyNone (raw_attributes cls d))"

section \<open>The store collaborator\<close>

text \<open>
  The collection of the driver is a collaborator: a record of its operations over a store
  state \<open>'s\<close>, each returning its result or the error the driver raises. A world is the
  store state and the list of the calls made so far, oldest first. \<open>await\<close> and
  \<open>run\<close> (which drives a call to completion on the event loop) are both the call.
\<close>

record update_result =
  matched_count :: nat
  modified_count :: nat
  upserted_id :: pyval

record cursor =
  cur_filter :: document
  cur_projection :: "document option"
  cur_sort :: "pyval option"
  cur_skip :: "pyval option"
  cur_limit :: "pyval option"
  cur_hint :: "pyval option"

datatype write_request =
    InsertOne document
  | DeleteOne document
  | UpdateOne document document bool

datatype store_call =
    Call_find_one document pyval
  | Call_find cursor
  | Call_explain cursor
  | Call_delete_one document
  | Call_update_one document document bool
  | Call_bulk_write "write_request list" bool

record 's collection =
  find_one :: "'s \<Rightarrow> document \<Rightarrow> pyval \<Rightarrow> (driver_error + document option) \<times> 's"
  find_cursor :: "'s \<Rightarrow> cursor \<Rightarrow> (driver_error + document list) \<times> 's"
  explain :: "'s \<Rightarrow> cursor \<Rightarrow> (driver_error + pyval) \<times> 's"
  delete_one :: "'s \<Rightarrow> document \<Rightarrow> (driver_error + nat) \<times> 's"
  update_one :: "'s \<Rightarrow> document \<Rightarrow> document \<Rightarrow> bool \<Rightarrow> (driver_error + update_result) \<times> 's"
  bulk_write :: "'s \<Rightarrow> write_request list \<Rightarrow> bool \<Rightarrow> (driver_error + pyval) \<times> 's"

record 's world =
  store :: 's
  calls :: "store_call list"

definition invoke ::
  "('s \<Rightarrow> (driver_error + 'r) \<times> 's) \<Rightarrow> store_call \<Rightarrow> 's world \<Rightarrow> (exn + 'r) \<times> 's world" where
  "invoke f c w =
     (case f (store w) of
        (r, s') \<Rightarrow>
          ((case r of Inl e \<Rightarrow> Inl (Raise_Driver e) | Inr x \<Rightarrow> Inr x),
           \<lparr>store = s', calls = calls w @ [c]\<rparr>))"

definition call_find_one ::
  "'s collection \<Rightarrow> 's world \<Rightarrow> document \<Rightarrow> pyval \<Rightarrow> (exn + document option) \<times> 's world" where
  "call_find_one col w f proj = invoke (\<lambda>s. find_one col s f proj) (Call_find_one f proj) w"

definition call_find ::
  "'s collection \<Rightarrow> 's world \<Rightarrow> cursor \<Rightarrow> (exn + document list) \<times> 's world" where
  "call_find col w c = invoke (\<lambda>s. find_cursor col s c) (Call_find c) w"

definition call_explain ::
  "'s collection \<Rightarrow> 's world \<Rightarrow> cursor \<Rightarrow> (exn + pyval) \<times> 's world" where
  "call_explain col w c = invoke (\<lambda>s. explain col s c) (Call_explain c) w"

definition call_delete_one ::
  "'s collection \<Rightarrow> 's world \<Rightarrow> document \<Rightarrow> (exn + nat) \<times> 's world" where
  "call_delete_one col w f = invoke (\<lambda>s. delete_one col s f) (Call_delete_one f) w"

definition call_update_one ::
  "'s collection \<Rightarrow> 's world \<Rightarrow> document \<Rightarrow> document \<Rightarrow> bool \<Rightarrow>
   (exn + update_result) \<times> 's world" where
  "call_update_one col w f u upsert =
     invoke (\<lambda>s. update_one col s f u upsert) (Call_update_one f u upsert) w"

definition call_bulk_write ::
  "'s collection \<Rightarrow> 's world \<Rightarrow> write_request list \<Rightarrow> bool \<Rightarrow> (exn + pyval) \<times> 's world" where
  "call_bulk_write col w reqs ord =
     invoke (\<lambda>s. bulk_write col s reqs ord) (Call_bulk_write reqs ord) w"

section \<open>Model operations (models.py)\<close>

definition msg :: string where
  \<comment> \<open>\<open>AttributesEmptyException.msg\<close>\<close>
  "msg = ''should get model from db or set model attributes first''"

subsection \<open>get\<close>

definition get ::
  "'s collection \<Rightarrow> model_class \<Rightarrow> 's world \<Rightarrow> pyval \<Rightarrow> document \<Rightarrow>
   (exn + model_instance) \<times> 's world" where
  "get col cls w attributes_to_get kwargs =
     (case call_find_one col w kwargs attributes_to_get of
        (Inl e, w1) \<Rightarrow> (Inl e, w1)
      | (Inr document, w1) \<Rightarrow>
          (case document of
             None \<Rightarrow> (Inl (Raise_DoesNotExist (DoesNotExist cls)), w1)
           | Some d \<Rightarrow>
               if d \<noteq> [] then (from_raw_data cls (Some d), w1)
               else (Inl (Raise_DoesNotExist (DoesNotExist cls)), w1)))"

definition async_get ::
  "'s collection \<Rightarrow> model_class \<Rightarrow> 's world \<Rightarrow> pyval \<Rightarrow> document \<Rightarrow>
   (exn + model_instance) \<times> 's world" where
  "async_get col cls w attributes_to_get kwargs =
     (case call_find_one col w kwargs attributes_to_get of
        (Inl e, w1) \<Rightarrow> (Inl e, w1)
      | (Inr document, w1) \<Rightarrow>
          (case document of
             None \<Rightarrow> (Inl (Raise_DoesNotExist (DoesNotExist cls)), w1)
           | Some d \<Rightarrow>
               if d \<noteq> [] then (from_raw_data cls (Some d), w1)
               else (Inl (Raise_DoesNotExist (DoesNotExist cls)), w1)))"

subsection \<open>delete, update, inc\<close>

definition delete ::
  "'s collection \<Rightarrow> model_instance \<Rightarrow> 's world \<Rightarrow> (exn + nat) \<times> 's world" where
  "delete col self w =
     (if truthy (mongo_obj_id self)
      then call_delete_one col w [(''_id'', mongo_obj_id self)]
      else if attributes self \<noteq> []
      then call_delete_one col w (attributes self)
      else (Inl (Raise_AttrsEmpty (''delete error: '' @ msg)), w))"

definition async_delete ::
  "'s collection \<Rightarrow> model_instance \<Rightarrow> 's world \<Rightarrow> (exn + nat) \<times> 's world" where
  "async_delete col self w =
     (if truthy (mongo_obj_id self)
      then call_delete_one col w [(''_id'', mongo_obj_id self)]
      else if attributes self \<noteq> []
      then call_delete_one col w (attributes self)
      else (Inl (Raise_AttrsEmpty (''delete error: '' @ msg)), w))"

definition update ::
  "'s collection \<Rightarrow> model_class \<Rightarrow> model_instance \<Rightarrow> 's world \<Rightarrow> document \<Rightarrow> bool \<Rightarrow> bool \<Rightarrow>
   (exn + update_result) \<times> model_instance \<times> 's world" where
  "update col cls self w actions reload upsert =
     (case (if truthy (mongo_obj_id self)
            then call_update_one col w
                   [(''_id'', mongo_obj_id self)] [(''$set'', PyDict actions)] upsert
            else if attributes self \<noteq> []
            then call_update_one col w (attributes self) [(''$set'', PyDict actions)] upsert
            else (Inl (Raise_AttrsEmpty (''update error: '' @ msg)), w)) of
        (Inl e, w1) \<Rightarrow> (Inl e, self, w1)
      | (Inr res, w1) \<Rightarrow>
          if modified_count res \<noteq> 0 \<and> reload
          then (case (if truthy (mongo_obj_id self)
                      then get col cls w1 PyNone [(''_id'', mongo_obj_id self)]
                      else get col cls w1 PyNone (attributes self)) of
                  (Inl e, w2) \<Rightarrow> (Inl e, self, w2)
                | (Inr new_data, w2) \<Rightarrow>
                    (Inr res, deserialize_fields cls self (attribute_values new_data), w2))
          else (Inr res, self, w1))"

definition async_update ::
  "'s collection \<Rightarrow> model_class \<Rightarrow> model_instance \<Rightarrow> 's world \<Rightarrow> document \<Rightarrow> bool \<Rightarrow> bool \<Rightarrow>
   (exn + update_result) \<times> model_instance \<times> 's world" where
  "async_update col cls self w actions reload upsert =
     (case (if truthy (mongo_obj_id self)
            then call_update_one col w
                   [(''_id'', mongo_obj_id self)] [(''$set'', PyDict actions)] upsert
            else if attributes self \<noteq> []
            then call_update_one col w (attributes self) [(''$set'', PyDict actions)] upsert
            else (Inl (Raise_AttrsEmpty (''update error: '' @ msg)), w)) of
        (Inl e, w1) \<Rightarrow> (Inl e, self, w1)
      | (Inr res, w1) \<Rightarrow>
          if modified_count res \<noteq> 0 \<and> reload
          then (case (if truthy (mongo_obj_id self)
                      then async_get col cls w1 PyNone [(''_id'', mongo_obj_id self)]
                      else async_get col cls w1 PyNone (attributes self)) of
                  (Inl e, w2) \<Rightarrow> (Inl e, self, w2)
                | (Inr new_data, w2) \<Rightarrow>
                    (Inr res, deserialize_fields cls self (attribute_values new_data), w2))
          else (Inr res, self, w1))"

text \<open>
  \<open>inc(self, actions)\<close> has no \<open>upsert\<close> parameter: \<open>update_one\<close> is called without
  one, and the driver's default is \<open>False\<close>.
\<close>

definition inc ::
  "'s collection \<Rightarrow> model_instance \<Rightarrow> 's world \<Rightarrow> document \<Rightarrow>
   (exn + update_result) \<times> 's world" where
  "inc col self w actions =
     (if truthy (mongo_obj_id self)
      then call_update_one col w
             [(''_id'', mongo_obj_id self)] [(''$inc'', PyDict actions)] False
      else if attributes self \<noteq> []
      then call_update_one col w (attributes self) [(''$inc'', PyDict actions)] False
      else (Inl (Raise_AttrsEmpty (''inc error: '' @ msg)), w))"

definition async_inc ::
  "'s collection \<Rightarrow> model_instance \<Rightarrow> 's world \<Rightarrow> document \<Rightarrow>
   (exn + update_result) \<times> 's world" where
  "async_inc col self w actions =
     (if truthy (mongo_obj_id self)
      then call_update_one col w
             [(''_id'', mongo_obj_id self)] [(''$inc'', PyDict actions)] False
      else if attributes self \<noteq> []
      then call_update_one col w (attributes self) [(''$inc'', PyDict actions)] False
      else (Inl (Raise_AttrsEmpty (''inc error: '' @ msg)), w))"

subsection \<open>find and query\<close>

text \<open>
  Iterating over \<open>attributes_to_get\<close> to build the projection \<open>{attr: 1, ...}\<close>: a
  list yields its elements, text its characters, a dictionary its keys; the other values
  are not iterable (\<open>TypeError\<close>). The keys of a document are text here, so a list
  element that is not text is an error as well.
\<close>

fun text_items :: "pyval list \<Rightarrow> string list option" where
  "text_items [] = Some []"
| "text_items (PyStr s # xs) = (case text_items xs of None \<Rightarrow> None | Some ns \<Rightarrow> Some (s # ns))"
| "text_items (_ # xs) = None"

fun iterate :: "pyval \<Rightarrow> string list option" where
  "iterate (PyList xs) = text_items xs"
| "iterate (PyStr s) = Some (map (\<lambda>c. [c]) s)"
| "iterate (PyDict d) = Some (map fst d)"
| "iterate _ = None"

definition fields_to_get :: "pyval \<Rightarrow> exn + document option" where
  "fields_to_get attributes_to_get =
     (if truthy attributes_to_get
      then (case iterate attributes_to_get of
              None \<Rightarrow> Inl Raise_TypeError
            | Some names \<Rightarrow> Inr (Some (fold (\<lambda>attr d. AList.update attr (PyInt 1) d) names [])))
      else Inr None)"

fun from_raw_documents :: "model_class \<Rightarrow> document list \<Rightarrow> exn + model_instance list" where
  "from_raw_documents cls [] = Inr []"
| "from_raw_documents cls (d # ds) =
     (case from_raw_data cls (Some d) of
        Inl e \<Rightarrow> Inl e
      | Inr i \<Rightarrow> (case from_raw_documents cls ds of Inl e \<Rightarrow> Inl e | Inr is \<Rightarrow> Inr (i # is)))"

definition async_find ::
  "'s collection \<Rightarrow> model_class \<Rightarrow> 's world \<Rightarrow> document \<Rightarrow> pyval \<Rightarrow> pyval \<Rightarrow> pyval \<Rightarrow> pyval \<Rightarrow>
   pyval \<Rightarrow> bool \<Rightarrow> (exn + model_instance list) \<times> 's world" where
  "async_find col cls w condition sort' offset limit attributes_to_get hint explain_flag =
     (case fields_to_get attributes_to_get of
        Inl e \<Rightarrow> (Inl e, w)
      | Inr projection \<Rightarrow>
          (let cur = \<lparr> cur_filter = condition,
                       cur_projection = projection,
                       cur_sort = (if truthy sort' then Some sort' else None),
                       cur_skip = (if truthy offset then Some offset else None),
                       cur_limit = (if truthy limit then Some limit else None),
                       cur_hint = (if truthy hint then Some hint else None) \<rparr>
           in case call_find col w cur of
                (Inl e, w1) \<Rightarrow> (Inl e, w1)
              | (Inr docs, w1) \<Rightarrow>
                  (case from_raw_documents cls docs of
                     Inl e \<Rightarrow> (Inl e, w1)
                   | Inr documents \<Rightarrow>
                       if explain_flag
                       then (case call_explain col w1 cur of
                               (Inl e, w2) \<Rightarrow> (Inl e, w2)
                             | (Inr _, w2) \<Rightarrow> (Inr documents, w2))
                       else (Inr documents, w1))))"

definition find_sync ::
  "'s collection \<Rightarrow> model_class \<Rightarrow> 's world \<Rightarrow> document \<Rightarrow> pyval \<Rightarrow> pyval \<Rightarrow> pyval \<Rightarrow> pyval \<Rightarrow>
   pyval \<Rightarrow> bool \<Rightarrow> (exn + model_instance list) \<times> 's world" where
  \<comment> \<open>\<open>MongoDBModel.find\<close>\<close>
  "find_sync col cls w condition sort' offset limit attributes_to_get hint explain_flag =
     async_find col cls w condition sort' offset limit attributes_to_get hint explain_flag"

text \<open>
  \<open>async_query(cls, sort=None, attributes_to_get=None, **kwargs)\<close>: \<open>offset\<close> and
  \<open>limit\<close> are popped from the keyword arguments, which are the filter.
\<close>

definition async_query ::
  "'s collection \<Rightarrow> model_class \<Rightarrow> 's world \<Rightarrow> pyval \<Rightarrow> pyval \<Rightarrow> document \<Rightarrow>
   (exn + model_instance list) \<times> 's world" where
  "async_query col cls w sort' attributes_to_get kwargs =
     (let offset = (case map_of kwargs ''offset'' of Some v \<Rightarrow> v | None \<Rightarrow> PyInt 0);
          kwargs1 = AList.delete ''offset'' kwargs;
          limit = (case map_of kwargs1 ''limit'' of Some v \<Rightarrow> v | None \<Rightarrow> PyNone);
          kwargs2 = AList.delete ''limit'' kwargs1
      in async_find col cls w kwargs2 sort' offset limit attributes_to_get PyNone False)"

text \<open>
  \<open>query(cls, attributes_to_get=None, **kwargs)\<close> runs
  \<open>cls.async_query(attributes_to_get, **kwargs)\<close>: its \<open>attributes_to_get\<close> is the first
  positional argument of \<open>async_query\<close>, which is \<open>sort\<close>, and
  \<open>attributes_to_get\<close> of \<open>async_query\<close> keeps its default \<open>None\<close>. A keyword
  \<open>sort\<close> then gives \<open>sort\<close> two values, a \<open>TypeError\<close>.
\<close>

definition query ::
  "'s collection \<Rightarrow> model_class \<Rightarrow> 's world \<Rightarrow> pyval \<Rightarrow> document \<Rightarrow>
   (exn + model_instance list) \<times> 's world" where
  "query col cls w attributes_to_get kwargs =
     (if map_of kwargs ''sort'' \<noteq> None then (Inl Raise_TypeError, w)
      else async_query col cls w attributes_to_get PyNone kwargs)"

section \<open>Batched writes (BatchWrite)\<close>

text \<open>
  Modelled from the spec: the constants \<open>ADD\<close>, \<open>DELETE\<close>, \<open>UPDATE\<close>, \<open>INC\<close> and
  \<open>BATCH_WRITE_PAGE_LIMIT\<close> of \<open>pymongodb.constants\<close> are not among the sources. The
  spec gives a pending operation as a tagged variant over Insert, Delete, Update and
  Increment, each with the target instance and, for Update and Increment, a delta document
  and an upsert flag: the four tags are the constructors below, one for the dictionary
  each staging method appends. The page limit is a parameter of \<open>BatchWrite_init\<close>.

  A staged operation holds the instance as it is when staged.
\<close>

datatype operation =
    ADD model_instance
  | DELETE model_instance
  | UPDATE model_instance document bool
  | INC model_instance document bool

record batch_write =
  model :: model_class
  pending_operations :: "operation list"
  failed_operations :: "operation list"
  max_operations :: int
  ordered :: bool

definition BatchWrite_init :: "int \<Rightarrow> model_class \<Rightarrow> bool \<Rightarrow> batch_write" where
  "BatchWrite_init BATCH_WRITE_PAGE_LIMIT mongo_model ord =
     \<lparr> model = mongo_model,
       pending_operations = [],
       failed_operations = [],
       max_operations = BATCH_WRITE_PAGE_LIMIT,
       ordered = ord \<rparr>"

text \<open>The body of the loop of \<open>commit\<close>: the request for one pending operation.\<close>

fun mongo_request :: "operation \<Rightarrow> write_request" where
  "mongo_request (ADD mongo_model) = InsertOne (attribute_values mongo_model)"
| "mongo_request (DELETE mongo_model) =
     (if truthy (mongo_obj_id mongo_model)
      then DeleteOne [(''_id'', mongo_obj_id mongo_model)]
      else DeleteOne (attributes mongo_model))"
| "mongo_request (UPDATE mongo_model upd upsert) =
     (if truthy (mongo_obj_id mongo_model)
      then UpdateOne [(''_id'', mongo_obj_id mongo_model)] [(''$set'', PyDict upd)] upsert
      else UpdateOne (attributes mongo_model) [(''$set'', PyDict upd)] upsert)"
| "mongo_request (INC mongo_model upd upsert) =
     (if truthy (mongo_obj_id mongo_model)
      then UpdateOne [(''_id'', mongo_obj_id mongo_model)] [(''$inc'', PyDict upd)] upsert
      else UpdateOne (attributes mongo_model) [(''$inc'', PyDict upd)] upsert)"

definition commit ::
  "'s collection \<Rightarrow> batch_write \<Rightarrow> 's world \<Rightarrow> (exn + unit) \<times> batch_write \<times> 's world" where
  "commit col self w =
     (let mongo_requests = map mongo_request (pending_operations self);
          self1 = self\<lparr>pending_operations := []\<rparr>
      in if mongo_requests = [] then (Inr (), self1, w)
         else (case call_bulk_write col w mongo_requests (ordered self1) of
                 (Inl (Raise_Driver (BulkWriteError details)), w1) \<Rightarrow>
                   (Inl (Raise_BulkWrite details), self1, w1)
               | (Inl e, w1) \<Rightarrow> (Inl e, self1, w1)
               | (Inr ret, w1) \<Rightarrow> (Inr (), self1, w1)))"

text \<open>
  The four staging methods have the same body: commit when the queue holds
  \<open>max_operations\<close> operations, then append.
\<close>

definition stage ::
  "'s collection \<Rightarrow> batch_write \<Rightarrow> 's world \<Rightarrow> operation \<Rightarrow>
   (exn + unit) \<times> batch_write \<times> 's world" where
  "stage col self w operation =
     (if int (length (pending_operations self)) = max_operations self
      then (case commit col self w of
              (Inl e, self1, w1) \<Rightarrow> (Inl e, self1, w1)
            | (Inr u, self1, w1) \<Rightarrow>
                (Inr (),
                 self1\<lparr>pending_operations := pending_operations self1 @ [operation]\<rparr>, w1))
      else (Inr (), self\<lparr>pending_operations := pending_operations self @ [operation]\<rparr>, w))"

definition BatchWrite_save ::
  "'s collection \<Rightarrow> batch_write \<Rightarrow> 's world \<Rightarrow> model_instance \<Rightarrow>
   (exn + unit) \<times> batch_write \<times> 's world" where
  "BatchWrite_save col self w put_item = stage col self w (ADD put_item)"

definition BatchWrite_delete ::
  "'s collection \<Rightarrow> batch_write \<Rightarrow> 's world \<Rightarrow> model_instance \<Rightarrow>
   (exn + unit) \<times> batch_write \<times> 's world" where
  "BatchWrite_delete col self w del_item = stage col self w (DELETE del_item)"

definition BatchWrite_update ::
  "'s collection \<Rightarrow> batch_write \<Rightarrow> 's world \<Rightarrow> model_instance \<Rightarrow> document \<Rightarrow> bool \<Rightarrow>
   (exn + unit) \<times> batch_write \<times> 's world" where
  "BatchWrite_update col self w update_item update_data upsert =
     stage col self w (UPDATE update_item update_data upsert)"

definition BatchWrite_inc ::
  "'s collection \<Rightarrow> batch_write \<Rightarrow> 's world \<Rightarrow> model_instance \<Rightarrow> document \<Rightarrow> bool \<Rightarrow>
   (exn + unit) \<times> batch_write \<times> 's world" where
  "BatchWrite_inc col self w inc_item inc_data upsert =
     stage col self w (INC inc_item inc_data upsert)"

text \<open>
  A sequence of staging calls, one after the other as a caller without a handler makes
  them: the first call that raises ends the sequence.
\<close>

fun stage_all ::
  "'s collection \<Rightarrow> batch_write \<Rightarrow> 's world \<Rightarrow> operation list \<Rightarrow>
   (exn + unit) \<times> batch_write \<times> 's world" where
  "stage_all col self w [] = (Inr (), self, w)"
| "stage_all col self w (operation # rest) =
     (case stage col self w operation of
        (Inl e, self1, w1) \<Rightarrow> (Inl e, self1, w1)
      | (Inr u, self1, w1) \<Rightarrow> stage_all col self1 w1 rest)"

section \<open>Auxiliary notions and examples\<close>

text \<open>The value the loop of \<open>_deserialize\<close> stores for a field, from the value it reads.\<close>

definition field_value :: "attribute \<Rightarrow> pyval \<Rightarrow> pyval" where
  "field_value a value = (if value \<noteq> PyNone then deserialize (kind a) value else value)"


text \<open>
  The filter that \<open>delete\<close>, \<open>update\<close> and \<open>inc\<close> compute: \<open>{"_id": self._id}\<close>
  when \<open>self._id\<close> is true (as every object id is), else \<open>self.attributes\<close> when
  that dictionary is not empty, else none.
\<close>

definition identity_filter :: "model_instance \<Rightarrow> document option" where
  "identity_filter self =
     (if truthy (mongo_obj_id self) then Some [(''_id'', mongo_obj_id self)]
      else if attributes self \<noteq> [] then Some (attributes self)
      else None)"

text \<open>
  The class \<open>MovieModel\<close> of the test script, its members in the order
  \<open>getmembers\<close> enumerates them (sorted by name).
\<close>

definition MovieModel :: model_class where
  "MovieModel =
     MetaModel_init 1 None
       [(''_id'', Attribute_init ObjectIdAttribute False None None None),
        (''genres'', Attribute_init ListAttribute False None None None),
        (''languages'', Attribute_init ListAttribute False None None None),
        (''movie_id'', Attribute_init UnicodeAttribute True None None None),
        (''title'',
           Attribute_init UnicodeAttribute False None (Some (DefaultValue (PyStr ''CN''))) None),
        (''year'', Attribute_init NumberAttribute False None None None)]
       None"

text \<open>The class \<open>ScheduleCacheModel\<close> of the test script.\<close>

definition ScheduleCacheModel :: model_class where
  "ScheduleCacheModel =
     MetaModel_init 2 None
       [(''_id'', Attribute_init ObjectIdAttribute False None None None),
        (''key'', Attribute_init UnicodeAttribute True None None None),
        (''time'', Attribute_init NumberAttribute False None (Some (DefaultValue (PyInt 0))) None),
        (''ttl'', Attribute_init UTCDateTimeAttribute False (Some True) None None),
        (''value'', Attribute_init JSONAttribute False (Some True) None None)]
       None"

text \<open>
  A collection with fixed answers and no state: \<open>find_one\<close> returns \<open>found\<close>,
  \<open>update_one\<close> reports \<open>n\<close> modified documents, \<open>bulk_write\<close> answers
  \<open>bulk\<close>.
\<close>

definition fixed_collection ::
  "document option \<Rightarrow> nat \<Rightarrow> driver_error + pyval \<Rightarrow> unit collection" where
  "fixed_collection found n bulk =
     \<lparr> find_one = (\<lambda>s f p. (Inr found, s)),
       find_cursor = (\<lambda>s c. (Inr [], s)),
       explain = (\<lambda>s c. (Inr PyNone, s)),
       delete_one = (\<lambda>s f. (Inr 1, s)),
       update_one =
         (\<lambda>s f u b. (Inr \<lparr>matched_count = n, modified_count = n, upserted_id = PyNone\<rparr>, s)),
       bulk_write = (\<lambda>s r ord. (bulk, s)) \<rparr>"

definition world0 :: "unit world" where
  "world0 = \<lparr>store = (), calls = []\<rparr>"

text \<open>The instance that \<open>MovieModel(movie_id=k)\<close> constructs.\<close>

definition movie :: "string \<Rightarrow> model_instance" where
  "movie k =
     \<lparr> attributes = [(''movie_id'', PyStr k)],
       attribute_values =
         [(''genres'', PyList []), (''languages'', PyList []), (''title'', PyStr ''CN''),
          (''movie_id'', PyStr k)] \<rparr>"

text \<open>The instance that \<open>MovieModel()\<close> constructs.\<close>

definition blank_movie :: model_instance where
  "blank_movie =
     \<lparr> attributes = [],
       attribute_values =
         [(''genres'', PyList []), (''languages'', PyList []), (''title'', PyStr ''CN'')] \<rparr>"

text \<open>
  An instance read from the store earlier, with an object id, and a document the store
  holds for it, without the fields \<open>title\<close>, \<open>languages\<close> and \<open>genres\<close>.
\<close>

definition saved_movie :: model_instance where
  "saved_movie =
     \<lparr> attributes = [(''movie_id'', PyStr ''a'')],
       attribute_values =
         [(''genres'', PyList []), (''languages'', PyList [PyStr ''Chinese'']),
          (''title'', PyStr ''Old''), (''movie_id'', PyStr ''a''),
          (''_id'', PyObjectId ''oid1'')] \<rparr>"

definition fetched :: document where
  "fetched = [(''_id'', PyObjectId ''oid1''), (''movie_id'', PyStr ''a''), (''year'', PyInt 1943)]"

section \<open>Round trip of the descriptors\<close>

lemma round_trip_identity_kinds: "inherits_identity k \<Longrightarrow> round_trip k v = Inr v"
  by (cases k) (simp_all add: inherits_identity_def round_trip_def)

lemma round_trip_bool: "round_trip BooleanAttribute (PyBool b) = Inr (PyBool b)"
  by (simp add: round_trip_def)

lemma round_trip_text: "s \<noteq> [] \<Longrightarrow> round_trip UnicodeAttribute (PyStr s) = Inr (PyStr s)"
  by (simp add: round_trip_def)

text \<open>
  Claim C1, as stated, fails: a Boolean descriptor turns \<open>None\<close> into \<open>False\<close>
  (\<open>serialize\<close> keeps \<open>None\<close>, \<open>deserialize\<close> is \<open>bool(value)\<close>), and a Text
  descriptor turns the empty text into \<open>None\<close>.
\<close>

theorem C1_round_trip_counterexample:
  "round_trip BooleanAttribute PyNone = Inr (PyBool False)
   \<and> round_trip BooleanAttribute PyNone \<noteq> Inr PyNone
   \<and> round_trip UnicodeAttribute (PyStr '''') = Inr PyNone
   \<and> round_trip UnicodeAttribute (PyStr '''') \<noteq> Inr (PyStr '''')"
  by (simp add: round_trip_def)

text \<open>
  Claim C1, amended: for the Number, Timestamp, Structured/JSON, Ordered-list and
  Object-id descriptors \<open>deserialize(serialize(v)) = v\<close> for every value \<open>v\<close>,
  \<open>None\<close> included; for the Boolean descriptor it holds for \<open>True\<close> and \<open>False\<close>;
  for the Text descriptor it holds for \<open>None\<close> and for every non-empty text, and the
  empty text comes back as \<open>None\<close>.
\<close>

theorem C1_round_trip_amended:
  "(inherits_identity k \<longrightarrow> round_trip k v = Inr v)
   \<and> round_trip BooleanAttribute (PyBool b) = Inr (PyBool b)
   \<and> round_trip UnicodeAttribute PyNone = Inr PyNone
   \<and> (s \<noteq> [] \<longrightarrow> round_trip UnicodeAttribute (PyStr s) = Inr (PyStr s))
   \<and> round_trip UnicodeAttribute (PyStr []) = Inr PyNone"
  using round_trip_identity_kinds [of k v] round_trip_bool [of b] round_trip_text [of s]
  by (simp add: round_trip_def)

theorem C1_round_trip_amended_witness:
  "inherits_identity JSONAttribute
   \<and> round_trip JSONAttribute (PyDict [(''a'', PyInt 1)]) = Inr (PyDict [(''a'', PyInt 1)])
   \<and> ''CN'' \<noteq> []
   \<and> round_trip UnicodeAttribute (PyStr ''CN'') = Inr (PyStr ''CN'')"
  using C1_round_trip_amended [of JSONAttribute "PyDict [(''a'', PyInt 1)]" True "''CN''"]
  by (simp add: inherits_identity_def)

section \<open>Construction of instances\<close>

lemma movie_constructed:
  "MongoDBModel_init MovieModel PyNone [(''movie_id'', PyStr k)] = Inr (movie k)"
  by (simp add: MongoDBModel_init_def AttributeContainer_init_def set_defaults_def MovieModel_def
      MetaModel_init_def initialize_attributes_def Attribute_init_def default_value_def setattr_def movie_def)


section \<open>The batch queue\<close>

lemma commit_empty:
  "pending_operations b = [] \<Longrightarrow> commit col b w = (Inr (), b, w)"
  by (simp add: commit_def)

lemma commit_nonempty:
  assumes "pending_operations b \<noteq> []"
  shows "commit col b w =
     (case bulk_write col (store w) (map mongo_request (pending_operations b)) (ordered b) of
        (r, s') \<Rightarrow>
          ((case r of Inl (BulkWriteError details) \<Rightarrow> Inl (Raise_BulkWrite details)
                    | Inl e \<Rightarrow> Inl (Raise_Driver e)
                    | Inr ret \<Rightarrow> Inr ()),
           b\<lparr>pending_operations := []\<rparr>,
           \<lparr>store = s',
            calls = calls w @ [Call_bulk_write (map mongo_request (pending_operations b)) (ordered b)]\<rparr>))"
  using assms
  by (auto simp add: commit_def call_bulk_write_def invoke_def Let_def split: prod.splits sum.splits driver_error.splits exn.splits)

lemma commit_clears:
  "commit col b w = (r, b', w') \<Longrightarrow> b' = b\<lparr>pending_operations := []\<rparr>"
  by (cases "pending_operations b = []")
     (auto simp add: commit_empty commit_nonempty split: prod.splits)

lemma stage_bound:
  assumes "0 < max_operations b" and "int (length (pending_operations b)) \<le> max_operations b"
    and "stage col b w operation = (r, b', w')"
  shows "int (length (pending_operations b')) \<le> max_operations b' \<and> max_operations b' = max_operations b"
proof (cases "int (length (pending_operations b)) = max_operations b")
  case True
  obtain rc bc wc where c: "commit col b w = (rc, bc, wc)" by (cases "commit col b w") auto
  then have bc: "bc = b\<lparr>pending_operations := []\<rparr>" by (rule commit_clears)
  show ?thesis using assms True c bc
    by (cases rc) (auto simp add: stage_def)
next
  case False
  then show ?thesis using assms by (auto simp add: stage_def)
qed

lemma stage_all_bound:
  assumes "0 < max_operations b" and "int (length (pending_operations b)) \<le> max_operations b"
    and "stage_all col b w ops = (r, b', w')"
  shows "int (length (pending_operations b')) \<le> max_operations b' \<and> max_operations b' = max_operations b"
  using assms
proof (induction ops arbitrary: b w)
  case Nil
  then show ?case by simp
next
  case (Cons operation rest)
  obtain r1 b1 w1 where s: "stage col b w operation = (r1, b1, w1)"
    by (cases "stage col b w operation") auto
  have b1: "int (length (pending_operations b1)) \<le> max_operations b1 \<and> max_operations b1 = max_operations b"
    using stage_bound [OF Cons.prems(1) Cons.prems(2) s] .
  show ?case
  proof (cases r1)
    case (Inl e)
    then show ?thesis using Cons.prems(3) s b1 by simp
  next
    case (Inr u)
    then have "stage_all col b1 w1 rest = (r, b', w')" using Cons.prems(3) s by simp
    from Cons.IH [OF _ _ this] b1 Cons.prems(1) show ?thesis by simp
  qed
qed

lemma stage_all_below_limit:
  "int (length (pending_operations b)) + int (length ops) \<le> max_operations b \<Longrightarrow>
   stage_all col b w ops = (Inr (), b\<lparr>pending_operations := pending_operations b @ ops\<rparr>, w)"
proof (induction ops arbitrary: b)
  case Nil
  then show ?case by simp
next
  case (Cons operation rest)
  let ?b1 = "b\<lparr>pending_operations := pending_operations b @ [operation]\<rparr>"
  have s: "stage col b w operation = (Inr (), ?b1, w)"
    using Cons.prems by (simp add: stage_def)
  have "int (length (pending_operations ?b1)) + int (length rest) \<le> max_operations ?b1"
    using Cons.prems by simp
  from Cons.IH [OF this] s show ?case by simp
qed

lemma stage_all_snoc:
  "stage_all col b w (ops @ [operation]) =
     (case stage_all col b w ops of
        (Inl e, b1, w1) \<Rightarrow> (Inl e, b1, w1)
      | (Inr u, b1, w1) \<Rightarrow> stage col b1 w1 operation)"
  by (induction ops arbitrary: b w) (auto split: prod.splits sum.splits)

lemma stage_all_one_flush:
  assumes L: "0 < L" and len: "int (length ops) = L + 1"
    and ok: "bulk_write col (store w) (map mongo_request (butlast ops)) ord = (Inr ret, s')"
  shows "stage_all col (BatchWrite_init L cls ord) w ops =
     (Inr (),
      (BatchWrite_init L cls ord)\<lparr>pending_operations := [last ops]\<rparr>,
      \<lparr>store = s', calls = calls w @ [Call_bulk_write (map mongo_request (butlast ops)) ord]\<rparr>)"
proof -
  let ?b = "BatchWrite_init L cls ord"
  have ne: "ops \<noteq> []" using L len by auto
  then have ops: "ops = butlast ops @ [last ops]" by simp
  have "length ops = Suc (length (butlast ops))" using ne by (cases ops rule: rev_cases) auto
  then have lb: "int (length (butlast ops)) = L" using len by linarith
  have "0 < length (butlast ops)" using lb L by linarith
  then have bne: "butlast ops \<noteq> []" by (simp del: length_butlast)
  have first: "stage_all col ?b w (butlast ops) =
      (Inr (), ?b\<lparr>pending_operations := butlast ops\<rparr>, w)"
    using stage_all_below_limit [of ?b "butlast ops" col w] lb
    by (simp add: BatchWrite_init_def)
  let ?b1 = "?b\<lparr>pending_operations := butlast ops\<rparr>"
  have c: "commit col ?b1 w =
      (Inr (), ?b1\<lparr>pending_operations := []\<rparr>,
       \<lparr>store = s', calls = calls w @ [Call_bulk_write (map mongo_request (butlast ops)) ord]\<rparr>)"
    using commit_nonempty [of ?b1 col w] bne ok by (simp add: BatchWrite_init_def)
  have "stage col ?b1 w (last ops) =
      (Inr (), ?b\<lparr>pending_operations := [last ops]\<rparr>,
       \<lparr>store = s', calls = calls w @ [Call_bulk_write (map mongo_request (butlast ops)) ord]\<rparr>)"
    using lb c by (simp add: stage_def BatchWrite_init_def)
  then show ?thesis
    using first stage_all_snoc [of col ?b w "butlast ops" "last ops"] ops by simp
qed

text \<open>
  Claim C4: \<open>commit\<close> on an empty queue does nothing and calls the store not at all;
  on a non-empty queue it makes one \<open>bulk_write\<close> call whose requests are those of the
  staged operations in staging order, and the queue is empty afterwards whatever the store
  answers; when the store raises \<open>BulkWriteError\<close>, \<open>BulkWriteException\<close> is raised
  with the error's details, the queue being empty.
\<close>

theorem C4_commit:
  "(pending_operations b = [] \<longrightarrow> commit col b w = (Inr (), b, w))
   \<and> (pending_operations b \<noteq> [] \<longrightarrow>
        bulk_write col (store w) (map mongo_request (pending_operations b)) (ordered b)
          = (Inr ret, s') \<longrightarrow>
        commit col b w =
          (Inr (), b\<lparr>pending_operations := []\<rparr>,
           \<lparr>store = s',
            calls = calls w @
              [Call_bulk_write (map mongo_request (pending_operations b)) (ordered b)]\<rparr>))
   \<and> (pending_operations b \<noteq> [] \<longrightarrow>
        bulk_write col (store w) (map mongo_request (pending_operations b)) (ordered b)
          = (Inl (BulkWriteError details), s') \<longrightarrow>
        commit col b w =
          (Inl (Raise_BulkWrite details), b\<lparr>pending_operations := []\<rparr>,
           \<lparr>store = s',
            calls = calls w @
              [Call_bulk_write (map mongo_request (pending_operations b)) (ordered b)]\<rparr>))
   \<and> pending_operations (fst (snd (commit col b w))) = []"
proof (cases "pending_operations b = []")
  case True
  then show ?thesis by (simp add: commit_empty)
next
  case False
  then show ?thesis
    by (auto simp add: commit_nonempty split: prod.splits)
qed

theorem C4_commit_witness:
  "pending_operations
     ((BatchWrite_init 3 MovieModel False)\<lparr>pending_operations := [ADD (movie ''a''), DELETE (movie ''b'')]\<rparr>) \<noteq> []
   \<and> commit (fixed_collection None 0 (Inl (BulkWriteError (PyStr ''details''))))
        ((BatchWrite_init 3 MovieModel False)\<lparr>pending_operations := [ADD (movie ''a''), DELETE (movie ''b'')]\<rparr>)
        world0
      = (Inl (Raise_BulkWrite (PyStr ''details'')),
         BatchWrite_init 3 MovieModel False,
         \<lparr>store = (),
          calls = [Call_bulk_write
                     [InsertOne (attribute_values (movie ''a'')),
                      DeleteOne [(''movie_id'', PyStr ''b'')]] False]\<rparr>)"
  using C4_commit [where b = "(BatchWrite_init 3 MovieModel False)\<lparr>pending_operations := [ADD (movie ''a''), DELETE (movie ''b'')]\<rparr>"
      and col = "fixed_collection None 0 (Inl (BulkWriteError (PyStr ''details'')))" and w = world0
      and s' = "()" and details = "PyStr ''details''"]
  by (simp add: BatchWrite_init_def fixed_collection_def world0_def movie_def mongo_obj_id_def dict_get_def)


text \<open>
  Claim C3: for a positive page limit \<open>L\<close>, after any sequence of staging calls on a
  new \<open>BatchWrite\<close> the queue holds between 0 and \<open>L\<close> operations; staging
  \<open>L + 1\<close> operations makes exactly one \<open>bulk_write\<close> call, with the requests of the
  first \<open>L\<close> operations, and (the store accepting it) leaves the last operation alone
  in the queue.
\<close>

theorem C3_queue_bound:
  assumes "0 < L"
  shows "0 \<le> int (length (pending_operations (fst (snd (stage_all col (BatchWrite_init L cls ord) w ops)))))
   \<and> int (length (pending_operations (fst (snd (stage_all col (BatchWrite_init L cls ord) w ops))))) \<le> L
   \<and> (int (length ops) = L + 1 \<longrightarrow>
        bulk_write col (store w) (map mongo_request (take (nat L) ops)) ord = (Inr ret, s') \<longrightarrow>
        stage_all col (BatchWrite_init L cls ord) w ops =
          (Inr (),
           (BatchWrite_init L cls ord)\<lparr>pending_operations := [last ops]\<rparr>,
           \<lparr>store = s',
            calls = calls w @ [Call_bulk_write (map mongo_request (take (nat L) ops)) ord]\<rparr>))"
proof -
  let ?b = "BatchWrite_init L cls ord"
  obtain r b' w' where s: "stage_all col ?b w ops = (r, b', w')"
    by (cases "stage_all col ?b w ops") auto
  have "int (length (pending_operations b')) \<le> max_operations b' \<and> max_operations b' = max_operations ?b"
    using stage_all_bound [of ?b col w ops r b' w'] assms s by (simp add: BatchWrite_init_def)
  then have bound: "int (length (pending_operations (fst (snd (stage_all col ?b w ops))))) \<le> L"
    using s by (simp add: BatchWrite_init_def)
  have flush: "stage_all col ?b w ops =
          (Inr (), ?b\<lparr>pending_operations := [last ops]\<rparr>,
           \<lparr>store = s',
            calls = calls w @ [Call_bulk_write (map mongo_request (take (nat L) ops)) ord]\<rparr>)"
    if len: "int (length ops) = L + 1"
      and ok: "bulk_write col (store w) (map mongo_request (take (nat L) ops)) ord = (Inr ret, s')"
  proof -
    have "nat L = length ops - 1" using len by linarith
    then have "take (nat L) ops = butlast ops" by (simp add: butlast_conv_take)
    then show ?thesis using stage_all_one_flush [OF assms len, of col w ord ret s' cls] ok by simp
  qed
  show ?thesis using bound flush by simp
qed

theorem C3_queue_bound_witness:
  "(0::int) < 3
   \<and> int (length [ADD (movie ''a''), ADD (movie ''b''), ADD (movie ''c''), ADD (movie ''d'')]) = 3 + 1
   \<and> stage_all (fixed_collection None 0 (Inr PyNone)) (BatchWrite_init 3 MovieModel False) world0
        [ADD (movie ''a''), ADD (movie ''b''), ADD (movie ''c''), ADD (movie ''d'')] =
      (Inr (),
       (BatchWrite_init 3 MovieModel False)\<lparr>pending_operations := [ADD (movie ''d'')]\<rparr>,
       \<lparr>store = (),
        calls = [Call_bulk_write
                   [InsertOne (attribute_values (movie ''a'')),
                    InsertOne (attribute_values (movie ''b'')),
                    InsertOne (attribute_values (movie ''c''))] False]\<rparr>)"
  using C3_queue_bound [where L = 3 and col = "fixed_collection None 0 (Inr PyNone)"
      and ops = "[ADD (movie ''a''), ADD (movie ''b''), ADD (movie ''c''), ADD (movie ''d'')]"
      and w = world0 and ord = False and ret = PyNone and s' = "()" and cls = MovieModel]
  by (simp add: fixed_collection_def world0_def)

section \<open>Identity resolution\<close>

lemma delete_identity:
  "delete col self w =
     (case identity_filter self of
        None \<Rightarrow> (Inl (Raise_AttrsEmpty (''delete error: '' @ msg)), w)
      | Some f \<Rightarrow> call_delete_one col w f)"
  by (simp add: delete_def identity_filter_def)

lemma inc_identity:
  "inc col self w actions =
     (case identity_filter self of
        None \<Rightarrow> (Inl (Raise_AttrsEmpty (''inc error: '' @ msg)), w)
      | Some f \<Rightarrow> call_update_one col w f [(''$inc'', PyDict actions)] False)"
  by (simp add: inc_def identity_filter_def)

lemma update_no_identity:
  "identity_filter self = None \<Longrightarrow>
   update col cls self w actions reload upsert =
     (Inl (Raise_AttrsEmpty (''update error: '' @ msg)), self, w)"
  by (simp add: update_def identity_filter_def split: if_splits)

lemma update_identity:
  "identity_filter self = Some f \<Longrightarrow>
   update col cls self w actions reload upsert =
     (case call_update_one col w f [(''$set'', PyDict actions)] upsert of
        (Inl e, w1) \<Rightarrow> (Inl e, self, w1)
      | (Inr res, w1) \<Rightarrow>
          if modified_count res \<noteq> 0 \<and> reload
          then (case get col cls w1 PyNone f of
                  (Inl e, w2) \<Rightarrow> (Inl e, self, w2)
                | (Inr new_data, w2) \<Rightarrow>
                    (Inr res, deserialize_fields cls self (attribute_values new_data), w2))
          else (Inr res, self, w1))"
  by (cases "truthy (mongo_obj_id self)")
     (auto simp add: update_def identity_filter_def split: if_splits prod.splits sum.splits)

lemma call_update_one_calls:
  "calls (snd (call_update_one col w f u upsert)) = calls w @ [Call_update_one f u upsert]"
  by (simp add: call_update_one_def invoke_def split: prod.splits)

lemma call_find_one_calls:
  "calls (snd (call_find_one col w f p)) = calls w @ [Call_find_one f p]"
  by (simp add: call_find_one_def invoke_def split: prod.splits)

lemma get_calls:
  "calls (snd (get col cls w p f)) = calls w @ [Call_find_one f p]"
  using call_find_one_calls [of col w f p]
  by (auto simp add: get_def split: prod.splits sum.splits option.splits)

lemma update_first_call:
  assumes "identity_filter self = Some f"
  shows "\<exists>rest. calls (snd (snd (update col cls self w actions reload upsert))) =
           calls w @ Call_update_one f [(''$set'', PyDict actions)] upsert # rest"
proof -
  obtain r w1 where c: "call_update_one col w f [(''$set'', PyDict actions)] upsert = (r, w1)"
    by (cases "call_update_one col w f [(''$set'', PyDict actions)] upsert") auto
  have w1: "calls w1 = calls w @ [Call_update_one f [(''$set'', PyDict actions)] upsert]"
    using call_update_one_calls [of col w f "[(''$set'', PyDict actions)]" upsert] c by simp
  show ?thesis
    using get_calls [of col cls w1 PyNone f] w1
    by (auto simp add: update_identity [OF assms] c split: sum.splits prod.splits)
qed

lemma mongo_request_identity:
  "mongo_request (DELETE i) = DeleteOne (case identity_filter i of Some f \<Rightarrow> f | None \<Rightarrow> [])"
  "mongo_request (UPDATE i d u) =
     UpdateOne (case identity_filter i of Some f \<Rightarrow> f | None \<Rightarrow> []) [(''$set'', PyDict d)] u"
  "mongo_request (INC i d u) =
     UpdateOne (case identity_filter i of Some f \<Rightarrow> f | None \<Rightarrow> []) [(''$inc'', PyDict d)] u"
  by (simp_all add: identity_filter_def)

text \<open>
  Claim C2 on the batch path: \<open>commit\<close> has no \<open>AttributesEmptyException\<close> branch.
  The instance \<open>MovieModel()\<close> has no object id and empty \<open>attributes\<close>; its
  \<open>delete()\<close> raises without a call to the store, while staging it for deletion and
  committing issues a \<open>bulk_write\<close> holding \<open>DeleteOne({})\<close>.
\<close>

theorem C2_batch_delete_without_identity:
  "MongoDBModel_init MovieModel PyNone [] = Inr blank_movie
   \<and> identity_filter blank_movie = None
   \<and> delete (fixed_collection None 0 (Inr PyNone)) blank_movie world0
       = (Inl (Raise_AttrsEmpty (''delete error: '' @ msg)), world0)
   \<and> (case BatchWrite_delete (fixed_collection None 0 (Inr PyNone))
              (BatchWrite_init 3 MovieModel False) world0 blank_movie of
         (r, b1, w1) \<Rightarrow> commit (fixed_collection None 0 (Inr PyNone)) b1 w1)
       = (Inr (), BatchWrite_init 3 MovieModel False,
          \<lparr>store = (), calls = [Call_bulk_write [DeleteOne []] False]\<rparr>)"
  by (simp add: MongoDBModel_init_def AttributeContainer_init_def set_defaults_def MovieModel_def
      MetaModel_init_def initialize_attributes_def Attribute_init_def default_value_def setattr_def
      blank_movie_def identity_filter_def mongo_obj_id_def dict_get_def delete_def
      BatchWrite_delete_def stage_def BatchWrite_init_def commit_def call_bulk_write_def
      invoke_def fixed_collection_def world0_def)

text \<open>
  Claim C7, as stated, fails: \<open>inc\<close> takes no upsert flag. Where \<open>update\<close> called
  with \<open>upsert=True\<close> issues an upserting \<open>update_one\<close>, \<open>inc\<close> on the same
  instance can only issue \<open>update_one\<close> with the driver's default, \<open>False\<close>.
\<close>

theorem C7_inc_counterexample:
  "inc (fixed_collection None 1 (Inr PyNone)) (movie ''a'') world0 [(''year'', PyInt 1)]
     = (Inr \<lparr>matched_count = 1, modified_count = 1, upserted_id = PyNone\<rparr>,
        \<lparr>store = (),
         calls = [Call_update_one [(''movie_id'', PyStr ''a'')]
                    [(''$inc'', PyDict [(''year'', PyInt 1)])] False]\<rparr>)
   \<and> update (fixed_collection None 1 (Inr PyNone)) MovieModel (movie ''a'') world0
        [(''year'', PyInt 1)] False True
     = (Inr \<lparr>matched_count = 1, modified_count = 1, upserted_id = PyNone\<rparr>,
        movie ''a'',
        \<lparr>store = (),
         calls = [Call_update_one [(''movie_id'', PyStr ''a'')]
                    [(''$set'', PyDict [(''year'', PyInt 1)])] True]\<rparr>)"
  by (simp add: inc_def update_def movie_def mongo_obj_id_def dict_get_def call_update_one_def
      invoke_def fixed_collection_def world0_def)

text \<open>
  Claim C7, amended: \<open>inc(delta)\<close> resolves the filter as \<open>update\<close> does and
  raises \<open>AttributesEmptyException\<close> in the same case, without a call to the store; it
  takes no upsert flag and issues \<open>update_one(filter, {"$inc": delta})\<close> with upsert
  false. The upsert flag is accepted by \<open>BatchWrite.inc\<close>, whose staged operation
  becomes \<open>UpdateOne(filter, {"$inc": delta}, upsert)\<close>.
\<close>

theorem C7_inc_amended:
  "inc col self w actions =
     (case identity_filter self of
        None \<Rightarrow> (Inl (Raise_AttrsEmpty (''inc error: '' @ msg)), w)
      | Some f \<Rightarrow> call_update_one col w f [(''$inc'', PyDict actions)] False)
   \<and> (identity_filter self = None \<longrightarrow>
        update col cls self w actions reload upsert =
          (Inl (Raise_AttrsEmpty (''update error: '' @ msg)), self, w))
   \<and> (identity_filter self = Some f \<longrightarrow>
        (\<exists>rest. calls (snd (snd (update col cls self w actions reload upsert))) =
           calls w @ Call_update_one f [(''$set'', PyDict actions)] upsert # rest)
        \<and> calls (snd (inc col self w actions)) =
           calls w @ [Call_update_one f [(''$inc'', PyDict actions)] False])
   \<and> BatchWrite_inc col b w self actions upsert = stage col b w (INC self actions upsert)
   \<and> mongo_request (INC self actions upsert) =
        UpdateOne (case identity_filter self of Some f \<Rightarrow> f | None \<Rightarrow> [])
          [(''$inc'', PyDict actions)] upsert"
  using inc_identity [of col self w actions]
    update_no_identity [of self col cls w actions reload upsert]
    update_first_call [of self f col cls w actions reload upsert]
    call_update_one_calls [of col w f "[(''$inc'', PyDict actions)]" False]
    mongo_request_identity(3) [of self actions upsert]
  by (simp add: BatchWrite_inc_def)

theorem C7_inc_amended_witness:
  "identity_filter (movie ''a'') = Some [(''movie_id'', PyStr ''a'')]
   \<and> calls (snd (inc (fixed_collection None 1 (Inr PyNone)) (movie ''a'') world0 [(''year'', PyInt 1)]))
      = calls world0 @ [Call_update_one [(''movie_id'', PyStr ''a'')]
                    [(''$inc'', PyDict [(''year'', PyInt 1)])] False]
   \<and> identity_filter blank_movie = None
   \<and> update (fixed_collection None 1 (Inr PyNone)) MovieModel blank_movie world0 [(''year'', PyInt 1)] True False
      = (Inl (Raise_AttrsEmpty (''update error: '' @ msg)), blank_movie, world0)"
proof -
  have a: "identity_filter (movie ''a'') = Some [(''movie_id'', PyStr ''a'')]"
    by (simp add: identity_filter_def movie_def mongo_obj_id_def dict_get_def)
  have b: "identity_filter blank_movie = None"
    by (simp add: identity_filter_def blank_movie_def mongo_obj_id_def dict_get_def)
  have c: "calls (snd (inc (fixed_collection None 1 (Inr PyNone)) (movie ''a'') world0 [(''year'', PyInt 1)]))
      = calls world0 @ [Call_update_one [(''movie_id'', PyStr ''a'')]
                    [(''$inc'', PyDict [(''year'', PyInt 1)])] False]"
    using a
      C7_inc_amended [where self = "movie ''a''" and f = "[(''movie_id'', PyStr ''a'')]"
        and col = "fixed_collection None 1 (Inr PyNone)" and w = world0
        and actions = "[(''year'', PyInt 1)]" and cls = MovieModel and reload = True
        and upsert = False and b = "BatchWrite_init 3 MovieModel False"]
    by blast
  have d: "update (fixed_collection None 1 (Inr PyNone)) MovieModel blank_movie world0 [(''year'', PyInt 1)] True False
      = (Inl (Raise_AttrsEmpty (''update error: '' @ msg)), blank_movie, world0)"
    using b
      C7_inc_amended [where self = blank_movie and f = "[]"
        and col = "fixed_collection None 1 (Inr PyNone)" and w = world0
        and actions = "[(''year'', PyInt 1)]" and cls = MovieModel and reload = True
        and upsert = False and b = "BatchWrite_init 3 MovieModel False"]
    by blast
  show ?thesis using a b c d by blast
qed

section \<open>Field values after construction and reload\<close>

lemma fold_view:
  fixes view :: "'acc \<Rightarrow> 'k \<Rightarrow> 'v option"
  assumes step: "\<And>k x acc. view (h (k, x) acc) =
      (case g k x of None \<Rightarrow> view acc | Some v \<Rightarrow> (view acc)(k \<mapsto> v))"
    and dist: "distinct (map fst xs)"
  shows "view (fold h xs acc) n =
      (case map_of xs n of
         None \<Rightarrow> view acc n
       | Some x \<Rightarrow> (case g n x of None \<Rightarrow> view acc n | Some v \<Rightarrow> Some v))"
  using dist
proof (induction xs arbitrary: acc)
  case Nil
  then show ?case by simp
next
  case (Cons p rest)
  obtain k0 x0 where p: "p = (k0, x0)" by (cases p)
  have d: "distinct (map fst rest)" and notin: "k0 \<notin> fst ` set rest"
    using Cons.prems p by auto
  have ih: "view (fold h rest (h (k0, x0) acc)) n =
      (case map_of rest n of
         None \<Rightarrow> view (h (k0, x0) acc) n
       | Some x \<Rightarrow> (case g n x of None \<Rightarrow> view (h (k0, x0) acc) n | Some v \<Rightarrow> Some v))"
    using Cons.IH [OF d] .
  show ?case
  proof (cases "n = k0")
    case True
    have "map_of rest k0 = None" using notin by (simp add: map_of_eq_None_iff)
    then show ?thesis using ih True p by (simp add: step split: option.splits)
  next
    case False
    then show ?thesis using ih p by (simp add: step split: option.splits)
  qed
qed

lemma setattr_view:
  "map_of (attribute_values (setattr i n v)) = (map_of (attribute_values i))(n \<mapsto> v)"
  by (simp add: setattr_def update_conv')

lemma deserialize_fields_value:
  assumes "distinct (map fst (get_attributes cls))" and "(n, a) \<in> set (get_attributes cls)"
  shows "map_of (attribute_values (deserialize_fields cls self attrs)) n =
           Some (field_value a (dict_get attrs n))"
proof -
  have m: "map_of (get_attributes cls) n = Some a" using assms by simp
  have "map_of (attribute_values (deserialize_fields cls self attrs)) n =
      (case map_of (get_attributes cls) n of
         None \<Rightarrow> map_of (attribute_values self) n
       | Some x \<Rightarrow> (case Some (field_value x (dict_get attrs n)) of
                      None \<Rightarrow> map_of (attribute_values self) n | Some v \<Rightarrow> Some v))"
    unfolding deserialize_fields_def
    by (rule fold_view [where view = "\<lambda>i. map_of (attribute_values i)"
          and g = "\<lambda>k x. Some (field_value x (dict_get attrs k))"])
       (simp_all add: setattr_view field_value_def Let_def assms(1))
  then show ?thesis using m by simp
qed

lemma deserialize_fields_other:
  assumes "distinct (map fst (get_attributes cls))" and "n \<notin> fst ` set (get_attributes cls)"
  shows "map_of (attribute_values (deserialize_fields cls self attrs)) n =
           map_of (attribute_values self) n"
proof -
  have m: "map_of (get_attributes cls) n = None" using assms by (simp add: map_of_eq_None_iff)
  have "map_of (attribute_values (deserialize_fields cls self attrs)) n =
      (case map_of (get_attributes cls) n of
         None \<Rightarrow> map_of (attribute_values self) n
       | Some x \<Rightarrow> (case Some (field_value x (dict_get attrs n)) of
                      None \<Rightarrow> map_of (attribute_values self) n | Some v \<Rightarrow> Some v))"
    unfolding deserialize_fields_def
    by (rule fold_view [where view = "\<lambda>i. map_of (attribute_values i)"
          and g = "\<lambda>k x. Some (field_value x (dict_get attrs k))"])
       (simp_all add: setattr_view field_value_def Let_def assms(1))
  then show ?thesis using m by simp
qed

lemma set_defaults_value:
  assumes "distinct (map fst (get_attributes cls))" and "(n, a) \<in> set (get_attributes cls)"
  shows "map_of (attribute_values (set_defaults cls i)) n =
           (if default_value a \<noteq> PyNone then Some (default_value a)
            else map_of (attribute_values i) n)"
proof -
  have m: "map_of (get_attributes cls) n = Some a" using assms by simp
  have "map_of (attribute_values (set_defaults cls i)) n =
      (case map_of (get_attributes cls) n of
         None \<Rightarrow> map_of (attribute_values i) n
       | Some x \<Rightarrow> (case (if default_value x \<noteq> PyNone then Some (default_value x) else None) of
                      None \<Rightarrow> map_of (attribute_values i) n | Some v \<Rightarrow> Some v))"
    unfolding set_defaults_def
    by (rule fold_view [where view = "\<lambda>i. map_of (attribute_values i)"
          and g = "\<lambda>k x. if default_value x \<noteq> PyNone then Some (default_value x) else None"])
       (simp_all add: setattr_view assms(1))
  then show ?thesis using m by simp
qed

lemma set_attributes_registered:
  "fst ` set attrs \<subseteq> fst ` set (get_attributes cls) \<Longrightarrow>
   set_attributes cls attrs i = Inr (fold (\<lambda>(n, v) j. setattr j n v) attrs i)"
proof (induction attrs arbitrary: i)
  case Nil
  then show ?case by simp
next
  case (Cons p rest)
  obtain n v where p: "p = (n, v)" by (cases p)
  have "n \<in> fst ` set (get_attributes cls)" using Cons.prems p by auto
  then have "map_of (get_attributes cls) n \<noteq> None" by (simp add: map_of_eq_None_iff)
  moreover have "fst ` set rest \<subseteq> fst ` set (get_attributes cls)" using Cons.prems by auto
  ultimately show ?case using Cons.IH p by simp
qed

lemma fold_setattr_value:
  assumes "distinct (map fst attrs)"
  shows "map_of (attribute_values (fold (\<lambda>(n, v) j. setattr j n v) attrs i)) n =
           (case map_of attrs n of None \<Rightarrow> map_of (attribute_values i) n | Some v \<Rightarrow> Some v)"
proof -
  have "map_of (attribute_values (fold (\<lambda>(n, v) j. setattr j n v) attrs i)) n =
      (case map_of attrs n of
         None \<Rightarrow> map_of (attribute_values i) n
       | Some x \<Rightarrow> (case Some x of None \<Rightarrow> map_of (attribute_values i) n | Some v \<Rightarrow> Some v))"
    by (rule fold_view [where view = "\<lambda>i. map_of (attribute_values i)" and g = "\<lambda>k x. Some x"])
       (simp_all add: setattr_view assms)
  then show ?thesis by (simp split: option.splits)
qed

lemma raw_attributes_keys_aux:
  "distinct (map fst acc) \<Longrightarrow> fst ` set acc \<subseteq> fst ` set reg \<Longrightarrow>
   distinct (map fst (fold (\<lambda>(attr_name, value) attrs.
             case map_of reg attr_name of
               None \<Rightarrow> attrs
             | Some a \<Rightarrow> AList.update attr_name (deserialize (kind a) value) attrs) d acc))
   \<and> fst ` set (fold (\<lambda>(attr_name, value) attrs.
             case map_of reg attr_name of
               None \<Rightarrow> attrs
             | Some a \<Rightarrow> AList.update attr_name (deserialize (kind a) value) attrs) d acc)
       \<subseteq> fst ` set reg"
proof (induction d arbitrary: acc)
  case Nil
  then show ?case by simp
next
  case (Cons p rest)
  obtain k v where p: "p = (k, v)" by (cases p)
  show ?case
  proof (cases "map_of reg k")
    case None
    then show ?thesis using Cons p by simp
  next
    case (Some a)
    then have "k \<in> fst ` set reg" using map_of_eq_None_iff [of reg k] by simp
    then have "distinct (map fst (AList.update k (deserialize (kind a) v) acc))"
      and "fst ` set (AList.update k (deserialize (kind a) v) acc) \<subseteq> fst ` set reg"
      using Cons.prems by (simp_all add: distinct_update dom_update)
    from Cons.IH [OF this] show ?thesis using p Some by simp
  qed
qed

lemma raw_attributes_keys:
  "distinct (map fst (raw_attributes cls d))"
  "fst ` set (raw_attributes cls d) \<subseteq> fst ` set (get_attributes cls)"
  using raw_attributes_keys_aux [of "[]" "get_attributes cls" d]
  by (simp_all add: raw_attributes_def)

lemma raw_attributes_value:
  assumes "distinct (map fst d)"
  shows "map_of (raw_attributes cls d) n =
           (case map_of d n of
              None \<Rightarrow> None
            | Some v \<Rightarrow> (case map_of (get_attributes cls) n of
                           None \<Rightarrow> None
                         | Some a \<Rightarrow> Some (deserialize (kind a) v)))"
proof -
  have "map_of (raw_attributes cls d) n =
      (case map_of d n of
         None \<Rightarrow> map_of [] n
       | Some x \<Rightarrow> (case map_option (\<lambda>a. deserialize (kind a) x) (map_of (get_attributes cls) n) of
                      None \<Rightarrow> map_of [] n | Some v \<Rightarrow> Some v))"
    unfolding raw_attributes_def
    by (rule fold_view [where view = map_of
          and g = "\<lambda>k x. map_option (\<lambda>a. deserialize (kind a) x) (map_of (get_attributes cls) k)"])
       (auto simp add: update_conv' assms split: option.splits)
  then show ?thesis by (simp split: option.splits)
qed

lemma from_raw_data_eq:
  "from_raw_data cls (Some d) =
     Inr (fold (\<lambda>(n, v) j. setattr j n v) (raw_attributes cls d)
            (set_defaults cls \<lparr>attributes = raw_attributes cls d, attribute_values = []\<rparr>))"
  using set_attributes_registered [OF raw_attributes_keys(2)]
  by (simp add: from_raw_data_def MongoDBModel_init_def AttributeContainer_init_def)

lemma from_raw_data_value:
  assumes "distinct (map fst (get_attributes cls))" and "distinct (map fst d)"
    and "(n, a) \<in> set (get_attributes cls)" and "from_raw_data cls (Some d) = Inr new_data"
  shows "dict_get (attribute_values new_data) n =
           (case map_of d n of
              Some v \<Rightarrow> deserialize (kind a) v
            | None \<Rightarrow> default_value a)"
proof -
  have m: "map_of (get_attributes cls) n = Some a" using assms by simp
  have nd: "new_data = fold (\<lambda>(n, v) j. setattr j n v) (raw_attributes cls d)
            (set_defaults cls \<lparr>attributes = raw_attributes cls d, attribute_values = []\<rparr>)"
    using assms(4) by (simp add: from_raw_data_eq)
  show ?thesis
    unfolding nd dict_get_def
    by (simp add: fold_setattr_value [OF raw_attributes_keys(1)]
        raw_attributes_value [OF assms(2)] set_defaults_value [OF assms(1) assms(3)] m
        split: option.splits)
qed

lemma deserialize_idem: "deserialize k (deserialize k v) = deserialize k v"
  by (cases k) simp_all

lemma deserialize_not_None: "v \<noteq> PyNone \<Longrightarrow> deserialize k v \<noteq> PyNone"
  by (cases k) simp_all

lemma deserialize_None: "k \<noteq> BooleanAttribute \<Longrightarrow> deserialize k PyNone = PyNone"
  by (cases k) simp_all

lemma reload_value:
  assumes "distinct (map fst (get_attributes cls))" and "distinct (map fst d)"
    and "(n, a) \<in> set (get_attributes cls)" and "from_raw_data cls (Some d) = Inr new_data"
  shows "dict_get (attribute_values (deserialize_fields cls self (attribute_values new_data))) n =
           field_value a (case map_of d n of
              Some v \<Rightarrow> deserialize (kind a) v
            | None \<Rightarrow> default_value a)"
  using deserialize_fields_value [OF assms(1) assms(3), of self "attribute_values new_data"]
    from_raw_data_value [OF assms]
  by (simp add: dict_get_def)

section \<open>update and its reload step\<close>

lemma update_without_reload:
  assumes "identity_filter self = Some f"
    and "update_one col (store w) f [(''$set'', PyDict actions)] upsert = (Inr res, s1)"
    and "\<not> (0 < modified_count res \<and> reload)"
  shows "update col cls self w actions reload upsert =
     (Inr res, self,
      \<lparr>store = s1, calls = calls w @ [Call_update_one f [(''$set'', PyDict actions)] upsert]\<rparr>)"
  using assms(2,3)
  by (auto simp add: update_identity [OF assms(1)] call_update_one_def invoke_def)

lemma update_reload_missing:
  assumes "identity_filter self = Some f"
    and "update_one col (store w) f [(''$set'', PyDict actions)] upsert = (Inr res, s1)"
    and "0 < modified_count res"
    and "find_one col s1 f PyNone = (Inr found, s2)"
    and "found = None \<or> found = Some []"
  shows "update col cls self w actions True upsert =
     (Inl (Raise_DoesNotExist (DoesNotExist cls)), self,
      \<lparr>store = s2,
       calls = calls w @ [Call_update_one f [(''$set'', PyDict actions)] upsert,
                          Call_find_one f PyNone]\<rparr>)"
  using assms(2-5)
  by (auto simp add: update_identity [OF assms(1)] call_update_one_def invoke_def get_def
      call_find_one_def)

lemma update_reload_found:
  assumes "identity_filter self = Some f"
    and "update_one col (store w) f [(''$set'', PyDict actions)] upsert = (Inr res, s1)"
    and "0 < modified_count res"
    and "find_one col s1 f PyNone = (Inr (Some d), s2)"
    and "d \<noteq> []"
    and "from_raw_data cls (Some d) = Inr new_data"
  shows "update col cls self w actions True upsert =
     (Inr res, deserialize_fields cls self (attribute_values new_data),
      \<lparr>store = s2,
       calls = calls w @ [Call_update_one f [(''$set'', PyDict actions)] upsert,
                          Call_find_one f PyNone]\<rparr>)"
  using assms(2-6)
  by (auto simp add: update_identity [OF assms(1)] call_update_one_def invoke_def get_def
      call_find_one_def)

lemma fetched_instance:
  "from_raw_data MovieModel (Some fetched) =
     Inr \<lparr> attributes = fetched,
           attribute_values =
             [(''genres'', PyList []), (''languages'', PyList []), (''title'', PyStr ''CN''),
              (''_id'', PyObjectId ''oid1''), (''movie_id'', PyStr ''a''),
              (''year'', PyInt 1943)] \<rparr>"
  by (simp add: from_raw_data_def raw_attributes_def MongoDBModel_init_def
      AttributeContainer_init_def set_defaults_def MovieModel_def MetaModel_init_def
      initialize_attributes_def Attribute_init_def default_value_def setattr_def fetched_def)

lemma saved_movie_reloaded:
  "update (fixed_collection (Some fetched) 1 (Inr PyNone)) MovieModel saved_movie world0
      [(''year'', PyInt 1943)] True False =
     (Inr \<lparr>matched_count = 1, modified_count = 1, upserted_id = PyNone\<rparr>,
      \<lparr> attributes = [(''movie_id'', PyStr ''a'')],
        attribute_values =
          [(''genres'', PyList []), (''languages'', PyList []), (''title'', PyStr ''CN''),
           (''movie_id'', PyStr ''a''), (''_id'', PyObjectId ''oid1''),
           (''year'', PyInt 1943)] \<rparr>,
      \<lparr>store = (),
       calls = [Call_update_one [(''_id'', PyObjectId ''oid1'')]
                  [(''$set'', PyDict [(''year'', PyInt 1943)])] False,
                Call_find_one [(''_id'', PyObjectId ''oid1'')] PyNone]\<rparr>)"
proof -
  have id: "identity_filter saved_movie = Some [(''_id'', PyObjectId ''oid1'')]"
    by (simp add: identity_filter_def saved_movie_def mongo_obj_id_def dict_get_def)
  have ne: "fetched \<noteq> []" by (simp add: fetched_def)
  have "update (fixed_collection (Some fetched) 1 (Inr PyNone)) MovieModel saved_movie world0
      [(''year'', PyInt 1943)] True False =
     (Inr \<lparr>matched_count = 1, modified_count = 1, upserted_id = PyNone\<rparr>,
      deserialize_fields MovieModel saved_movie
        [(''genres'', PyList []), (''languages'', PyList []), (''title'', PyStr ''CN''),
              (''_id'', PyObjectId ''oid1''), (''movie_id'', PyStr ''a''),
              (''year'', PyInt 1943)],
      \<lparr>store = (),
       calls = [Call_update_one [(''_id'', PyObjectId ''oid1'')]
                  [(''$set'', PyDict [(''year'', PyInt 1943)])] False,
                Call_find_one [(''_id'', PyObjectId ''oid1'')] PyNone]\<rparr>)"
    using update_reload_found [OF id _ _ _ ne fetched_instance,
        where col = "fixed_collection (Some fetched) 1 (Inr PyNone)" and w = world0
          and actions = "[(''year'', PyInt 1943)]" and upsert = False
          and res = "\<lparr>matched_count = 1, modified_count = 1, upserted_id = PyNone\<rparr>"
          and ?s1.0 = "()" and ?s2.0 = "()"]
    by (simp add: fixed_collection_def world0_def)
  moreover have "deserialize_fields MovieModel saved_movie
        [(''genres'', PyList []), (''languages'', PyList []), (''title'', PyStr ''CN''),
              (''_id'', PyObjectId ''oid1''), (''movie_id'', PyStr ''a''),
              (''year'', PyInt 1943)] =
      \<lparr> attributes = [(''movie_id'', PyStr ''a'')],
        attribute_values =
          [(''genres'', PyList []), (''languages'', PyList []), (''title'', PyStr ''CN''),
           (''movie_id'', PyStr ''a''), (''_id'', PyObjectId ''oid1''),
           (''year'', PyInt 1943)] \<rparr>"
    by (simp add: deserialize_fields_def MovieModel_def MetaModel_init_def
        initialize_attributes_def Attribute_init_def setattr_def saved_movie_def dict_get_def)
  ultimately show ?thesis by simp
qed

lemma deserialize_fields_attributes:
  "attributes (deserialize_fields cls self attrs) = attributes self"
proof -
  have "attributes (fold (\<lambda>(name, a) i.
             let value = dict_get attrs name;
                 value = (if value \<noteq> PyNone then deserialize (kind a) value else value)
             in setattr i name value) reg i) = attributes i" for reg i
    by (induction reg arbitrary: i) (auto simp add: setattr_def Let_def split: prod.splits)
  then show ?thesis by (simp add: deserialize_fields_def)
qed


text \<open>
  Claim C5: \<open>update\<close> raises \<open>AttributesEmptyException\<close> without a call when no
  filter is resolved; otherwise it calls \<open>update_one(filter, {"$set": delta}, upsert)\<close>.
  If the result reports no modified document or \<open>reload\<close> is false, nothing else
  happens: one call, the instance unchanged. If it reports a modified document and
  \<open>reload\<close> is true, \<open>find_one\<close> is called with the same filter; when it finds no
  document the model's \<open>DoesNotExist\<close> is raised; when it finds a document \<open>d\<close>,
  the value of every registered field is overwritten from \<open>d\<close>: it becomes what the
  field's \<open>deserialize\<close> gives for the value \<open>d\<close> holds (or for the field's default
  where \<open>d\<close> lacks the field), whatever the instance held before; \<open>attributes\<close> and
  the values under names that are not registered stay as they were.
\<close>

theorem C5_update:
  "(identity_filter self = None \<longrightarrow>
      update col cls self w actions reload upsert =
        (Inl (Raise_AttrsEmpty (''update error: '' @ msg)), self, w))
   \<and> (identity_filter self = Some f \<longrightarrow>
      update_one col (store w) f [(''$set'', PyDict actions)] upsert = (Inr res, s1) \<longrightarrow>
        (\<not> (0 < modified_count res \<and> reload) \<longrightarrow>
           update col cls self w actions reload upsert =
             (Inr res, self,
              \<lparr>store = s1,
               calls = calls w @ [Call_update_one f [(''$set'', PyDict actions)] upsert]\<rparr>))
      \<and> (0 < modified_count res \<longrightarrow> find_one col s1 f PyNone = (Inr None, s2) \<longrightarrow>
           update col cls self w actions True upsert =
             (Inl (Raise_DoesNotExist (DoesNotExist cls)), self,
              \<lparr>store = s2,
               calls = calls w @ [Call_update_one f [(''$set'', PyDict actions)] upsert,
                                  Call_find_one f PyNone]\<rparr>))
      \<and> (0 < modified_count res \<longrightarrow> find_one col s1 f PyNone = (Inr (Some d), s2) \<longrightarrow>
         d \<noteq> [] \<longrightarrow>
           (\<exists>self'.
              update col cls self w actions True upsert =
                  (Inr res, self',
                   \<lparr>store = s2,
                    calls = calls w @ [Call_update_one f [(''$set'', PyDict actions)] upsert,
                                       Call_find_one f PyNone]\<rparr>)
              \<and> attributes self' = attributes self
              \<and> (distinct (map fst (get_attributes cls)) \<longrightarrow> distinct (map fst d) \<longrightarrow>
                   (\<forall>(n, a) \<in> set (get_attributes cls).
                      dict_get (attribute_values self') n =
                        field_value a
                          (case map_of d n of
                             Some v \<Rightarrow> deserialize (kind a) v
                           | None \<Rightarrow> default_value a))
                   \<and> (\<forall>n. n \<notin> fst ` set (get_attributes cls) \<longrightarrow>
                          map_of (attribute_values self') n =
                            map_of (attribute_values self) n)))))"
proof -
  have found: "\<exists>self'.
              update col cls self w actions True upsert =
                  (Inr res, self',
                   \<lparr>store = s2,
                    calls = calls w @ [Call_update_one f [(''$set'', PyDict actions)] upsert,
                                       Call_find_one f PyNone]\<rparr>)
              \<and> attributes self' = attributes self
              \<and> (distinct (map fst (get_attributes cls)) \<longrightarrow> distinct (map fst d) \<longrightarrow>
                   (\<forall>(n, a) \<in> set (get_attributes cls).
                      dict_get (attribute_values self') n =
                        field_value a
                          (case map_of d n of
                             Some v \<Rightarrow> deserialize (kind a) v
                           | None \<Rightarrow> default_value a))
                   \<and> (\<forall>n. n \<notin> fst ` set (get_attributes cls) \<longrightarrow>
                          map_of (attribute_values self') n =
                            map_of (attribute_values self) n))"
    if h: "identity_filter self = Some f"
      "update_one col (store w) f [(''$set'', PyDict actions)] upsert = (Inr res, s1)"
      "0 < modified_count res" "find_one col s1 f PyNone = (Inr (Some d), s2)" "d \<noteq> []"
  proof -
    obtain new_data where nd: "from_raw_data cls (Some d) = Inr new_data"
      by (simp add: from_raw_data_eq)
    let ?self' = "deserialize_fields cls self (attribute_values new_data)"
    have u: "update col cls self w actions True upsert =
                  (Inr res, ?self',
                   \<lparr>store = s2,
                    calls = calls w @ [Call_update_one f [(''$set'', PyDict actions)] upsert,
                                       Call_find_one f PyNone]\<rparr>)"
      using update_reload_found [OF h nd] .
    have a: "attributes ?self' = attributes self" by (rule deserialize_fields_attributes)
    have v: "\<forall>(n, a) \<in> set (get_attributes cls).
                      dict_get (attribute_values ?self') n =
                        field_value a
                          (case map_of d n of
                             Some v \<Rightarrow> deserialize (kind a) v
                           | None \<Rightarrow> default_value a)"
      if "distinct (map fst (get_attributes cls))" "distinct (map fst d)"
      using reload_value [OF that _ nd] by auto
    have o: "\<forall>n. n \<notin> fst ` set (get_attributes cls) \<longrightarrow>
                          map_of (attribute_values ?self') n = map_of (attribute_values self) n"
      if "distinct (map fst (get_attributes cls))"
      using deserialize_fields_other [OF that] by blast
    show ?thesis using u a v o by (intro exI [of _ ?self']) blast
  qed
  show ?thesis
    using update_no_identity [of self col cls w actions reload upsert]
      update_without_reload [of self f col w actions upsert res s1 reload cls]
      update_reload_missing [of self f col w actions upsert res s1 None s2 cls]
      found
    by blast
qed


theorem C5_update_witness:
  "identity_filter saved_movie = Some [(''_id'', PyObjectId ''oid1'')]
   \<and> fetched \<noteq> []
   \<and> distinct (map fst (get_attributes MovieModel))
   \<and> distinct (map fst fetched)
   \<and> (\<exists>self'.
         update (fixed_collection (Some fetched) 1 (Inr PyNone)) MovieModel saved_movie world0
              [(''year'', PyInt 1943)] True False =
             (Inr \<lparr>matched_count = 1, modified_count = 1, upserted_id = PyNone\<rparr>,
              self',
              \<lparr>store = (),
               calls = [Call_update_one [(''_id'', PyObjectId ''oid1'')]
                          [(''$set'', PyDict [(''year'', PyInt 1943)])] False,
                        Call_find_one [(''_id'', PyObjectId ''oid1'')] PyNone]\<rparr>)
         \<and> attributes self' = [(''movie_id'', PyStr ''a'')]
         \<and> dict_get (attribute_values self') ''year'' = PyInt 1943
         \<and> dict_get (attribute_values self') ''title'' = PyStr ''CN'')"
proof -
  have id: "identity_filter saved_movie = Some [(''_id'', PyObjectId ''oid1'')]"
    by (simp add: identity_filter_def saved_movie_def mongo_obj_id_def dict_get_def)
  have ne: "fetched \<noteq> []" and dd: "distinct (map fst fetched)"
    and y: "map_of fetched ''year'' = Some (PyInt 1943)" and t: "map_of fetched ''title'' = None"
    by (simp_all add: fetched_def)
  have reg: "distinct (map fst (get_attributes MovieModel))"
    and my: "(''year'', Attribute_init NumberAttribute False None None (Some ''year''))
        \<in> set (get_attributes MovieModel)"
    and mt: "(''title'', Attribute_init UnicodeAttribute False None
                (Some (DefaultValue (PyStr ''CN''))) (Some ''title''))
        \<in> set (get_attributes MovieModel)"
    by (simp_all add: MovieModel_def MetaModel_init_def initialize_attributes_def
        Attribute_init_def)
  have u: "update_one (fixed_collection (Some fetched) 1 (Inr PyNone)) (store world0)
             [(''_id'', PyObjectId ''oid1'')] [(''$set'', PyDict [(''year'', PyInt 1943)])] False =
           (Inr \<lparr>matched_count = 1, modified_count = 1, upserted_id = PyNone\<rparr>, ())"
    by (simp add: fixed_collection_def)
  have m: "0 < modified_count \<lparr>matched_count = 1, modified_count = 1, upserted_id = PyNone\<rparr>"
    by simp
  have fo: "find_one (fixed_collection (Some fetched) 1 (Inr PyNone)) ()
              [(''_id'', PyObjectId ''oid1'')] PyNone = (Inr (Some fetched), ())"
    by (simp add: fixed_collection_def)
  obtain self' where
    up: "update (fixed_collection (Some fetched) 1 (Inr PyNone)) MovieModel saved_movie world0
              [(''year'', PyInt 1943)] True False =
             (Inr \<lparr>matched_count = 1, modified_count = 1, upserted_id = PyNone\<rparr>,
              self',
              \<lparr>store = (),
               calls = calls world0 @ [Call_update_one [(''_id'', PyObjectId ''oid1'')]
                          [(''$set'', PyDict [(''year'', PyInt 1943)])] False,
                        Call_find_one [(''_id'', PyObjectId ''oid1'')] PyNone]\<rparr>)"
    and at: "attributes self' = attributes saved_movie"
    and vals: "\<forall>(n, a) \<in> set (get_attributes MovieModel).
                      dict_get (attribute_values self') n =
                        field_value a
                          (case map_of fetched n of
                             Some v \<Rightarrow> deserialize (kind a) v
                           | None \<Rightarrow> default_value a)"
    using id u m fo ne reg dd
      C5_update [where self = saved_movie and f = "[(''_id'', PyObjectId ''oid1'')]"
        and col = "fixed_collection (Some fetched) 1 (Inr PyNone)" and w = world0
        and actions = "[(''year'', PyInt 1943)]" and upsert = False and reload = True
        and res = "\<lparr>matched_count = 1, modified_count = 1, upserted_id = PyNone\<rparr>"
        and ?s1.0 = "()" and ?s2.0 = "()" and d = fetched and cls = MovieModel]
    by blast
  have vy: "dict_get (attribute_values self') ''year'' = PyInt 1943"
    using vals my y by (auto simp add: field_value_def Attribute_init_def)
  have vt: "dict_get (attribute_values self') ''title'' = PyStr ''CN''"
    using vals mt t by (auto simp add: field_value_def Attribute_init_def default_value_def)
  have at': "attributes self' = [(''movie_id'', PyStr ''a'')]"
    using at by (simp add: saved_movie_def)
  have up': "update (fixed_collection (Some fetched) 1 (Inr PyNone)) MovieModel saved_movie world0
              [(''year'', PyInt 1943)] True False =
             (Inr \<lparr>matched_count = 1, modified_count = 1, upserted_id = PyNone\<rparr>,
              self',
              \<lparr>store = (),
               calls = [Call_update_one [(''_id'', PyObjectId ''oid1'')]
                          [(''$set'', PyDict [(''year'', PyInt 1943)])] False,
                        Call_find_one [(''_id'', PyObjectId ''oid1'')] PyNone]\<rparr>)"
    using up by (simp add: world0_def)
  show ?thesis using id ne reg dd up' at' vy vt by blast
qed


text \<open>
  Claim C10, as stated, fails: a registered field that is absent from the fetched document
  does not become \<open>None\<close> when it has a default. The instance built from the document
  by \<open>from_raw_data\<close> holds the defaults, and the reload copies them: \<open>title\<close>
  becomes \<open>"CN"\<close> and \<open>languages\<close> the empty list.
\<close>

theorem C10_reload_counterexample:
  "map_of fetched ''title'' = None
   \<and> map_of fetched ''languages'' = None
   \<and> dict_get (attribute_values (fst (snd
        (update (fixed_collection (Some fetched) 1 (Inr PyNone)) MovieModel saved_movie world0
           [(''year'', PyInt 1943)] True False)))) ''title'' = PyStr ''CN''
   \<and> dict_get (attribute_values (fst (snd
        (update (fixed_collection (Some fetched) 1 (Inr PyNone)) MovieModel saved_movie world0
           [(''year'', PyInt 1943)] True False)))) ''languages'' = PyList []"
  unfolding saved_movie_reloaded by (simp add: dict_get_def fetched_def)


text \<open>
  Claim C10, amended: after a successful reload from the fetched document, each registered
  field holds the deserialized fetched value when the document has a non-null value for
  it; \<open>None\<close> when the document has null for it (for the kinds other than Boolean);
  and, when the document lacks it, the field's default (deserialized) if the default is
  not \<open>None\<close>, else \<open>None\<close>. So the fields cleared are those without a default.
\<close>

theorem C10_reload_amended:
  assumes "distinct (map fst (get_attributes cls))"
    and "distinct (map fst d)"
    and "(n, a) \<in> set (get_attributes cls)"
    and "identity_filter self = Some f"
    and "update_one col (store w) f [(''$set'', PyDict actions)] upsert = (Inr res, s1)"
    and "0 < modified_count res"
    and "find_one col s1 f PyNone = (Inr (Some d), s2)"
    and "d \<noteq> []"
  shows "(\<forall>v. map_of d n = Some v \<and> v \<noteq> PyNone \<longrightarrow>
            dict_get (attribute_values (fst (snd (update col cls self w actions True upsert)))) n
              = deserialize (kind a) v)
   \<and> (map_of d n = Some PyNone \<and> kind a \<noteq> BooleanAttribute \<longrightarrow>
            dict_get (attribute_values (fst (snd (update col cls self w actions True upsert)))) n
              = PyNone)
   \<and> (map_of d n = None \<longrightarrow>
            dict_get (attribute_values (fst (snd (update col cls self w actions True upsert)))) n
              = (if default_value a \<noteq> PyNone then deserialize (kind a) (default_value a)
                 else PyNone))"
proof -
  obtain new_data where nd: "from_raw_data cls (Some d) = Inr new_data"
    by (simp add: from_raw_data_eq)
  have u: "fst (snd (update col cls self w actions True upsert)) =
      deserialize_fields cls self (attribute_values new_data)"
    using update_reload_found [OF assms(4-8) nd] by simp
  have v: "dict_get (attribute_values (fst (snd (update col cls self w actions True upsert)))) n =
      field_value a (case map_of d n of Some v \<Rightarrow> deserialize (kind a) v | None \<Rightarrow> default_value a)"
    unfolding u using reload_value [OF assms(1-3) nd] .
  show ?thesis
    unfolding v
    by (auto simp add: field_value_def deserialize_idem deserialize_not_None deserialize_None)
qed


theorem C10_reload_amended_witness:
  "distinct (map fst (get_attributes MovieModel))
   \<and> distinct (map fst fetched)
   \<and> (''year'', Attribute_init NumberAttribute False None None (Some ''year''))
        \<in> set (get_attributes MovieModel)
   \<and> map_of fetched ''year'' = Some (PyInt 1943)
   \<and> dict_get (attribute_values (fst (snd
        (update (fixed_collection (Some fetched) 1 (Inr PyNone)) MovieModel saved_movie world0
           [(''year'', PyInt 1943)] True False)))) ''year'' = PyInt 1943"
proof -
  have reg: "distinct (map fst (get_attributes MovieModel))"
    and mem: "(''year'', Attribute_init NumberAttribute False None None (Some ''year''))
        \<in> set (get_attributes MovieModel)"
    by (simp_all add: MovieModel_def MetaModel_init_def initialize_attributes_def
        Attribute_init_def)
  have dd: "distinct (map fst fetched)" and y: "map_of fetched ''year'' = Some (PyInt 1943)"
    and ne: "fetched \<noteq> []"
    by (simp_all add: fetched_def)
  have id: "identity_filter saved_movie = Some [(''_id'', PyObjectId ''oid1'')]"
    by (simp add: identity_filter_def saved_movie_def mongo_obj_id_def dict_get_def)
  have u: "update_one (fixed_collection (Some fetched) 1 (Inr PyNone)) (store world0)
             [(''_id'', PyObjectId ''oid1'')] [(''$set'', PyDict [(''year'', PyInt 1943)])] False =
           (Inr \<lparr>matched_count = 1, modified_count = 1, upserted_id = PyNone\<rparr>, ())"
    by (simp add: fixed_collection_def)
  have m: "0 < modified_count \<lparr>matched_count = 1, modified_count = 1, upserted_id = PyNone\<rparr>"
    by simp
  have fo: "find_one (fixed_collection (Some fetched) 1 (Inr PyNone)) ()
              [(''_id'', PyObjectId ''oid1'')] PyNone = (Inr (Some fetched), ())"
    by (simp add: fixed_collection_def)
  have "dict_get (attribute_values (fst (snd
        (update (fixed_collection (Some fetched) 1 (Inr PyNone)) MovieModel saved_movie world0
           [(''year'', PyInt 1943)] True False)))) ''year''
      = deserialize (kind (Attribute_init NumberAttribute False None None (Some ''year''))) (PyInt 1943)"
    using C10_reload_amended [OF reg dd mem id u m fo ne] y by blast
  then show ?thesis using reg dd mem y by (simp add: Attribute_init_def)
qed

section \<open>Registration and the hash key\<close>

lemma fold_hash_key:
  "fold (\<lambda>(name, a) hk. if is_hash_key a then Some name else hk) reg init =
     (case filter (\<lambda>(n, a). is_hash_key a) reg of
        [] \<Rightarrow> init
      | x # xs \<Rightarrow> Some (fst (last (x # xs))))"
proof (induction reg arbitrary: init)
  case Nil
  then show ?case by simp
next
  case (Cons p rest)
  obtain n a where p: "p = (n, a)" by (cases p)
  show ?case
    using Cons.IH [of "if is_hash_key a then Some n else init"] p
    by (auto split: list.splits)
qed

lemma update_fresh: "k \<notin> fst ` set al \<Longrightarrow> AList.update k v al = al @ [(k, v)]"
  by (induction al) auto

lemma fold_register:
  "distinct (map fst members) \<Longrightarrow> fst ` set members \<inter> fst ` set acc = {} \<Longrightarrow>
   fold (\<lambda>(name, a) reg. AList.update name (a\<lparr>attr_name := Some name\<rparr>) reg) members acc =
     acc @ map (\<lambda>(name, a). (name, a\<lparr>attr_name := Some name\<rparr>)) members"
proof (induction members arbitrary: acc)
  case Nil
  then show ?case by simp
next
  case (Cons p rest)
  obtain n a where p: "p = (n, a)" by (cases p)
  have fresh: "n \<notin> fst ` set acc" using Cons.prems p by auto
  have d: "distinct (map fst rest)" using Cons.prems by simp
  have "fst ` set rest \<inter> fst ` set (acc @ [(n, a\<lparr>attr_name := Some n\<rparr>)]) = {}"
    using Cons.prems p by auto
  from Cons.IH [OF d this] show ?case using p fresh by (simp add: update_fresh)
qed

lemma initialize_attributes_distinct:
  "distinct (map fst members) \<Longrightarrow>
   initialize_attributes members = map (\<lambda>(name, a). (name, a\<lparr>attr_name := Some name\<rparr>)) members"
  using fold_register [of members "[]"] by (simp add: initialize_attributes_def)

lemma set_update_cases:
  "(n, a) \<in> set (AList.update k v al) \<Longrightarrow> (n, a) = (k, v) \<or> (n, a) \<in> set al"
  by (induction al) (auto split: if_splits)

lemma registered_names:
  "(n, a) \<in> set (initialize_attributes members) \<Longrightarrow> attr_name a = Some n"
proof -
  have "\<forall>(n, a) \<in> set acc. attr_name a = Some n \<Longrightarrow>
        \<forall>(n, a) \<in> set (fold (\<lambda>(name, a) reg. AList.update name (a\<lparr>attr_name := Some name\<rparr>) reg)
                          members acc). attr_name a = Some n" for acc
  proof (induction members arbitrary: acc)
    case Nil
    then show ?case by simp
  next
    case (Cons p rest)
    obtain k b where p: "p = (k, b)" by (cases p)
    have "\<forall>(n, a) \<in> set (AList.update k (b\<lparr>attr_name := Some k\<rparr>) acc). attr_name a = Some n"
      using Cons.prems by (auto dest: set_update_cases)
    from Cons.IH [OF this] show ?case using p by simp
  qed
  from this [of "[]"] show "(n, a) \<in> set (initialize_attributes members) \<Longrightarrow> attr_name a = Some n"
    by (auto simp add: initialize_attributes_def)
qed

lemma filter_registered:
  "filter (\<lambda>(n, a). is_hash_key a) (map (\<lambda>(name, a). (name, a\<lparr>attr_name := Some name\<rparr>)) members)
     = map (\<lambda>(name, a). (name, a\<lparr>attr_name := Some name\<rparr>)) (filter (\<lambda>(n, a). is_hash_key a) members)"
  by (induction members) auto

lemma registry_of_members:
  assumes d: "distinct (map fst members)"
  shows "map fst (get_attributes (MetaModel_init cid inherited members declared)) = map fst members"
    and "hash_key_field (MetaModel_init cid inherited members declared) =
            (case filter (\<lambda>(n, a). is_hash_key a) members of
               [] \<Rightarrow> inherited
             | x # xs \<Rightarrow> Some (fst (last (x # xs))))"
proof -
  have g: "get_attributes (MetaModel_init cid inherited members declared) =
      map (\<lambda>(name, a). (name, a\<lparr>attr_name := Some name\<rparr>)) members"
    using initialize_attributes_distinct [OF d] by (simp add: MetaModel_init_def Let_def)
  have names: "map fst (map (\<lambda>(name, a). (name, a\<lparr>attr_name := Some name\<rparr>)) members) = map fst members"
    by (induction members) auto
  have l: "fst (last (map (\<lambda>(name, a). (name, a\<lparr>attr_name := Some name\<rparr>)) ys)) = fst (last ys)"
    if "ys \<noteq> []" for ys :: "(string \<times> attribute) list"
    using that by (induction ys) (auto split: prod.splits)
  have h: "hash_key_field (MetaModel_init cid inherited members declared) =
     (case filter (\<lambda>(n, a). is_hash_key a)
             (get_attributes (MetaModel_init cid inherited members declared)) of
        [] \<Rightarrow> inherited
      | x # xs \<Rightarrow> Some (fst (last (x # xs))))"
    by (simp add: MetaModel_init_def Let_def fold_hash_key)
  show "map fst (get_attributes (MetaModel_init cid inherited members declared)) = map fst members"
    using g names by simp
  show "hash_key_field (MetaModel_init cid inherited members declared) =
            (case filter (\<lambda>(n, a). is_hash_key a) members of
               [] \<Rightarrow> inherited
             | x # xs \<Rightarrow> Some (fst (last (x # xs))))"
    unfolding h g filter_registered
    using l [of "filter (\<lambda>(n, a). is_hash_key a) members"]
    by (cases "filter (\<lambda>(n, a). is_hash_key a) members") (auto split: list.splits)
qed


text \<open>
  Claim C8: a model class records at most one hash-key field (\<open>_hash_key\<close> is one
  name or \<open>None\<close>), and it is the last field with \<open>is_hash_key\<close> set in the order
  of the registry, which for members of distinct names is the order in which
  \<open>getmembers\<close> enumerates them; with no such field the inherited value stays.
\<close>

theorem C8_hash_key:
  "hash_key_field (MetaModel_init cid inherited members declared) =
     (case filter (\<lambda>(n, a). is_hash_key a)
             (get_attributes (MetaModel_init cid inherited members declared)) of
        [] \<Rightarrow> inherited
      | x # xs \<Rightarrow> Some (fst (last (x # xs))))
   \<and> (distinct (map fst members) \<longrightarrow>
        map fst (get_attributes (MetaModel_init cid inherited members declared)) = map fst members
        \<and> hash_key_field (MetaModel_init cid inherited members declared) =
            (case filter (\<lambda>(n, a). is_hash_key a) members of
               [] \<Rightarrow> inherited
             | x # xs \<Rightarrow> Some (fst (last (x # xs)))))"
  using registry_of_members [of members cid inherited declared]
  by (simp add: MetaModel_init_def Let_def fold_hash_key)

theorem C8_hash_key_witness:
  "distinct (map fst
      [(''a_key'', Attribute_init UnicodeAttribute True None None None),
       (''b_key'', Attribute_init NumberAttribute True None None None),
       (''c'', Attribute_init NumberAttribute False None None None)])
   \<and> hash_key_field (MetaModel_init 3 None
        [(''a_key'', Attribute_init UnicodeAttribute True None None None),
         (''b_key'', Attribute_init NumberAttribute True None None None),
         (''c'', Attribute_init NumberAttribute False None None None)] None) = Some ''b_key''"
proof -
  let ?members = "[(''a_key'', Attribute_init UnicodeAttribute True None None None),
       (''b_key'', Attribute_init NumberAttribute True None None None),
       (''c'', Attribute_init NumberAttribute False None None None)]"
  have d: "distinct (map fst ?members)" by simp
  have "hash_key_field (MetaModel_init 3 None ?members None) =
      (case filter (\<lambda>(n, a). is_hash_key a) ?members of
         [] \<Rightarrow> None
       | x # xs \<Rightarrow> Some (fst (last (x # xs))))"
    using C8_hash_key [of 3 None ?members None] d by blast
  then have "hash_key_field (MetaModel_init 3 None ?members None) = Some ''b_key''"
    by (simp add: Attribute_init_def)
  then show ?thesis using d by blast
qed

text \<open>
  The enumeration is by name: with the members of \<open>getmembers\<close>, the recorded hash
  key is the greatest name among the fields that set \<open>is_hash_key\<close>, wherever the
  class body declares them.
\<close>

lemma sorted_le_last:
  fixes ys :: "'k::linorder list"
  shows "sorted ys \<Longrightarrow> y \<in> set ys \<Longrightarrow> y \<le> last ys"
  by (induction ys) auto

lemma sorted_last_Max:
  fixes xs :: "('k::linorder \<times> 'v) list"
  assumes "sorted (map fst xs)" and "xs \<noteq> []"
  shows "fst (last xs) = Max (fst ` set xs)"
proof -
  have l: "last (map fst xs) = fst (last xs)" using assms(2) by (simp add: last_map)
  have le: "y \<le> fst (last xs)" if "y \<in> fst ` set xs" for y
  proof -
    have "y \<in> set (map fst xs)" using that by simp
    then have "y \<le> last (map fst xs)" using assms(1) by (rule sorted_le_last [rotated])
    then show ?thesis using l by simp
  qed
  have mem: "fst (last xs) \<in> fst ` set xs" using assms(2) by simp
  have "Max (fst ` set xs) = fst (last xs)"
    using _ le mem by (rule Max_eqI) simp
  then show ?thesis by (rule sym)
qed

lemma sorted_filter_fst:
  fixes xs :: "('k::linorder \<times> 'v) list"
  shows "sorted (map fst xs) \<Longrightarrow> sorted (map fst (filter P xs))"
  by (induction xs) auto

lemma hash_key_by_name:
  assumes "distinct (map fst namespace)"
    and "filter (\<lambda>(n, a). is_hash_key a) namespace \<noteq> []"
  shows "hash_key_field (MetaModel_init cid inherited (getmembers namespace) declared) =
           Some (Max (fst ` {(n, a) \<in> set namespace. is_hash_key a}))"
proof -
  let ?ms = "getmembers namespace"
  let ?fl = "filter (\<lambda>(n, a). is_hash_key a) ?ms"
  have d: "distinct (map fst ?ms)"
    using assms(1) by (simp add: getmembers_def distinct_map)
  have s: "sorted (map fst ?fl)"
    by (rule sorted_filter_fst) (simp add: getmembers_def)
  have set: "set ?fl = set (filter (\<lambda>(n, a). is_hash_key a) namespace)"
    by (auto simp add: getmembers_def)
  have "set (filter (\<lambda>(n, a). is_hash_key a) namespace) \<noteq> {}"
    using assms(2) by (simp only: set_empty not_False_eq_True)
  then have "set ?fl \<noteq> {}" unfolding set .
  then have ne: "?fl \<noteq> []" by (simp only: set_empty not_False_eq_True)
  have "hash_key_field (MetaModel_init cid inherited ?ms declared) =
      (case ?fl of [] \<Rightarrow> inherited | x # xs \<Rightarrow> Some (fst (last (x # xs))))"
    using registry_of_members(2) [OF d] .
  also have "\<dots> = Some (fst (last ?fl))" using ne by (cases ?fl) auto
  also have "\<dots> = Some (Max (fst ` set ?fl))" using sorted_last_Max [OF s ne] by simp
  also have "set ?fl = {(n, a) \<in> set namespace. is_hash_key a}"
    unfolding set by auto
  finally show ?thesis .
qed

lemma getmembers_example:
  "map fst (getmembers
      [(''z_key'', Attribute_init UnicodeAttribute True None None None),
       (''_id'', Attribute_init ObjectIdAttribute False None None None),
       (''a_key'', Attribute_init UnicodeAttribute True None None None)]) = [''_id'', ''a_key'', ''z_key'']"
  by (simp add: getmembers_def less_eq_char_def less_char_def)

lemma hash_key_example:
  "hash_key_field (MetaModel_init 3 None (getmembers
      [(''z_key'', Attribute_init UnicodeAttribute True None None None),
       (''_id'', Attribute_init ObjectIdAttribute False None None None),
       (''a_key'', Attribute_init UnicodeAttribute True None None None)]) None) = Some ''z_key''"
  by (simp add: getmembers_def less_eq_char_def less_char_def MetaModel_init_def
      initialize_attributes_def Attribute_init_def)

section \<open>The per-model DoesNotExist\<close>

lemma get_not_found:
  "find_one col (store w) kwargs attributes_to_get = (Inr None, s1) \<Longrightarrow>
   get col cls w attributes_to_get kwargs =
     (Inl (Raise_DoesNotExist (DoesNotExist cls)),
      \<lparr>store = s1, calls = calls w @ [Call_find_one kwargs attributes_to_get]\<rparr>)"
  by (simp add: get_def call_find_one_def invoke_def)

text \<open>
  Claim C9, as stated, fails for the model type \<open>MongoDBModel\<close> itself: its body
  declares \<open>DoesNotExist = DoesNotExist\<close>, the package-wide class, so a handler scoped
  to \<open>MongoDBModel.DoesNotExist\<close> catches the \<open>DoesNotExist\<close> of every model.
\<close>

theorem C9_not_found_counterexample:
  "cls_id MovieModel \<noteq> cls_id MongoDBModel
   \<and> DoesNotExist MovieModel = ModelDoesNotExist 1
   \<and> DoesNotExist MongoDBModel = DoesNotExistC
   \<and> handler_catches (DoesNotExist MongoDBModel) (DoesNotExist MovieModel)"
  by (simp add: MovieModel_def MongoDBModel_def MetaModel_init_def handler_catches_def Let_def)


text \<open>
  Claim C9, amended: for model types whose class body does not declare \<open>DoesNotExist\<close>
  (every model but the base \<open>MongoDBModel\<close>, unless it declares one), the metaclass
  creates a class of its own, derived from the package-wide one and different from it; for
  two distinct such model types a handler scoped to one's \<open>DoesNotExist\<close> does not catch
  the other's; \<open>get\<close> on an empty result raises the \<open>DoesNotExist\<close> of its model.
\<close>

theorem C9_not_found_amended:
  "(ca \<noteq> cb \<longrightarrow>
      \<not> handler_catches (DoesNotExist (MetaModel_init cb ib mb None))
                         (DoesNotExist (MetaModel_init ca ia ma None)))
   \<and> handler_catches DoesNotExistC (DoesNotExist (MetaModel_init ca ia ma None))
   \<and> DoesNotExist (MetaModel_init ca ia ma None) \<noteq> DoesNotExistC
   \<and> (find_one col (store w) kwargs attributes_to_get = (Inr None, s1) \<longrightarrow>
        get col cls w attributes_to_get kwargs =
          (Inl (Raise_DoesNotExist (DoesNotExist cls)),
           \<lparr>store = s1, calls = calls w @ [Call_find_one kwargs attributes_to_get]\<rparr>))"
  using get_not_found [of col w kwargs attributes_to_get s1 cls]
  by (simp add: MetaModel_init_def handler_catches_def Let_def)


theorem C9_not_found_amended_witness:
  "cls_id MovieModel \<noteq> cls_id ScheduleCacheModel
   \<and> \<not> handler_catches (DoesNotExist ScheduleCacheModel) (DoesNotExist MovieModel)
   \<and> get (fixed_collection None 0 (Inr PyNone)) MovieModel world0 PyNone
        [(''title'', PyStr ''Unknown'')] =
       (Inl (Raise_DoesNotExist (ModelDoesNotExist 1)),
        \<lparr>store = (), calls = [Call_find_one [(''title'', PyStr ''Unknown'')] PyNone]\<rparr>)"
proof -
  have ids: "cls_id MovieModel \<noteq> cls_id ScheduleCacheModel"
    by (simp add: MovieModel_def ScheduleCacheModel_def MetaModel_init_def Let_def)
  have a: "\<not> handler_catches (DoesNotExist ScheduleCacheModel) (DoesNotExist MovieModel)"
    unfolding MovieModel_def ScheduleCacheModel_def
    by (rule C9_not_found_amended [THEN conjunct1, THEN mp]) simp
  have f: "find_one (fixed_collection None 0 (Inr PyNone)) (store world0)
             [(''title'', PyStr ''Unknown'')] PyNone = (Inr None, ())"
    by (simp add: fixed_collection_def)
  have "get (fixed_collection None 0 (Inr PyNone)) MovieModel world0 PyNone
        [(''title'', PyStr ''Unknown'')] =
       (Inl (Raise_DoesNotExist (DoesNotExist MovieModel)),
        \<lparr>store = (), calls = calls world0 @ [Call_find_one [(''title'', PyStr ''Unknown'')] PyNone]\<rparr>)"
    using f C9_not_found_amended [where col = "fixed_collection None 0 (Inr PyNone)"
        and w = world0 and kwargs = "[(''title'', PyStr ''Unknown'')]"
        and attributes_to_get = PyNone and ?s1.0 = "()" and cls = MovieModel]
    by blast
  then have g: "get (fixed_collection None 0 (Inr PyNone)) MovieModel world0 PyNone
        [(''title'', PyStr ''Unknown'')] =
       (Inl (Raise_DoesNotExist (ModelDoesNotExist 1)),
        \<lparr>store = (), calls = [Call_find_one [(''title'', PyStr ''Unknown'')] PyNone]\<rparr>)"
    by (simp add: world0_def MovieModel_def MetaModel_init_def Let_def)
  show ?thesis using ids a g by blast
qed


section \<open>Synchronous and asynchronous forms\<close>

lemma get_async_get: "get = async_get"
  by (intro ext) (simp add: get_def async_get_def)

lemma sync_async_agree:
  "get col cls w attributes_to_get kwargs = async_get col cls w attributes_to_get kwargs"
  "delete col self w = async_delete col self w"
  "update col cls self w actions reload upsert = async_update col cls self w actions reload upsert"
  "inc col self w actions = async_inc col self w actions"
  "find_sync col cls w condition s offset limit attributes_to_get hint ex =
     async_find col cls w condition s offset limit attributes_to_get hint ex"
proof -
  show "get col cls w attributes_to_get kwargs = async_get col cls w attributes_to_get kwargs"
    by (simp add: get_async_get)
  show "delete col self w = async_delete col self w"
    by (simp add: delete_def async_delete_def)
  show "update col cls self w actions reload upsert = async_update col cls self w actions reload upsert"
    unfolding update_def async_update_def get_async_get ..
  show "inc col self w actions = async_inc col self w actions"
    by (simp add: inc_def async_inc_def)
  show "find_sync col cls w condition s offset limit attributes_to_get hint ex =
     async_find col cls w condition s offset limit attributes_to_get hint ex"
    by (simp add: find_sync_def)
qed

text \<open>
  Claim C6 fails for \<open>query\<close>: it passes \<open>attributes_to_get\<close> as the first positional
  argument of \<open>async_query\<close>, which is \<open>sort\<close>. With
  \<open>attributes_to_get=["title"]\<close> the synchronous form sorts by that list and projects
  nothing, where the asynchronous form projects \<open>{"title": 1}\<close> and does not sort; and
  a keyword \<open>sort\<close> makes the synchronous form raise \<open>TypeError\<close>.
\<close>

theorem C6_query_divergence:
  "query (fixed_collection None 0 (Inr PyNone)) MovieModel world0
      (PyList [PyStr ''title'']) [(''title'', PyStr ''Casablanca'')] =
     (Inr [],
      \<lparr>store = (),
       calls = [Call_find \<lparr> cur_filter = [(''title'', PyStr ''Casablanca'')],
                            cur_projection = None,
                            cur_sort = Some (PyList [PyStr ''title'']),
                            cur_skip = None, cur_limit = None, cur_hint = None \<rparr>]\<rparr>)
   \<and> async_query (fixed_collection None 0 (Inr PyNone)) MovieModel world0
      PyNone (PyList [PyStr ''title'']) [(''title'', PyStr ''Casablanca'')] =
     (Inr [],
      \<lparr>store = (),
       calls = [Call_find \<lparr> cur_filter = [(''title'', PyStr ''Casablanca'')],
                            cur_projection = Some [(''title'', PyInt 1)],
                            cur_sort = None,
                            cur_skip = None, cur_limit = None, cur_hint = None \<rparr>]\<rparr>)
   \<and> query (fixed_collection None 0 (Inr PyNone)) MovieModel world0
      PyNone [(''sort'', PyList [PyStr ''year'']), (''title'', PyStr ''Casablanca'')] =
     (Inl Raise_TypeError, world0)"
  by (simp add: query_def async_query_def async_find_def fields_to_get_def call_find_def
      invoke_def fixed_collection_def world0_def Let_def)

end
